theory Spec2Isabelle
  imports Complex_Main
begin

section \<open>Python values\<close>

text \<open>
  A Python \<open>str\<close> is represented by its UTF-8 encoding, a list of bytes
  (\<^typ>\<open>string\<close>). Concatenation, equality, a test for an ASCII prefix and a slice
  behind an ASCII prefix are the same on the encoding as on the text.
  The \<open>bytes\<close> of a response line are a \<^typ>\<open>string\<close> as well;
  \<open>line.decode('utf-8')\<close> returns the same byte list when it is valid UTF-8 and
  raises otherwise.
\<close>

datatype exn_kind =
    KeyboardInterrupt
  | RequestException
  | UnicodeDecodeError
  | TypeError
  | AttributeError
  | KeyError
  | IndexError
  | DatabaseError

text \<open>
  An exception is its class and the text \<open>str(e)\<close>. \<open>KeyboardInterrupt\<close> derives from
  \<open>BaseException\<close> only; every other class here derives from \<open>Exception\<close>.
\<close>

datatype exn = Exn exn_kind string

fun kind :: "exn \<Rightarrow> exn_kind" where
  "kind (Exn k t) = k"

fun str_exn :: "exn \<Rightarrow> string" where
  "str_exn (Exn k t) = t"

definition is_Exception :: "exn \<Rightarrow> bool" where
  "is_Exception e = (kind e \<noteq> KeyboardInterrupt)"

definition is_RequestException :: "exn \<Rightarrow> bool" where
  "is_RequestException e = (kind e = RequestException)"

subsection \<open>UTF-8\<close>

definition is_cont :: "char \<Rightarrow> bool" where
  "is_cont c = (0x80 \<le> (of_char c :: nat) \<and> (of_char c :: nat) \<le> 0xBF)"

fun utf8_valid :: "string \<Rightarrow> bool" where
  "utf8_valid [] = True"
| "utf8_valid (c # cs) =
     (let b = (of_char c :: nat) in
      if b < 0x80 then utf8_valid cs
      else if 0xC2 \<le> b \<and> b \<le> 0xDF then
        (case cs of c1 # r \<Rightarrow> is_cont c1 \<and> utf8_valid r | _ \<Rightarrow> False)
      else if 0xE0 \<le> b \<and> b \<le> 0xEF then
        (case cs of
           c1 # c2 # r \<Rightarrow>
             is_cont c1 \<and> is_cont c2
             \<and> (if b = 0xE0 then 0xA0 \<le> (of_char c1 :: nat) else True)
             \<and> (if b = 0xED then (of_char c1 :: nat) \<le> 0x9F else True)
             \<and> utf8_valid r
         | _ \<Rightarrow> False)
      else if 0xF0 \<le> b \<and> b \<le> 0xF4 then
        (case cs of
           c1 # c2 # c3 # r \<Rightarrow>
             is_cont c1 \<and> is_cont c2 \<and> is_cont c3
             \<and> (if b = 0xF0 then 0x90 \<le> (of_char c1 :: nat) else True)
             \<and> (if b = 0xF4 then (of_char c1 :: nat) \<le> 0x8F else True)
             \<and> utf8_valid r
         | _ \<Rightarrow> False)
      else False)"

text \<open>
  \<open>bytes.decode('utf-8')\<close>. The text of the error names the offending byte and its
  position in CPython; no property below depends on it.
\<close>

definition decode_utf8 :: "string \<Rightarrow> exn + string" where
  "decode_utf8 line =
     (if utf8_valid line then Inr line
      else Inl (Exn UnicodeDecodeError ''utf-8 codec can't decode byte''))"

text \<open>
  The code points of a text, each as its group of bytes: a byte joins the group
  behind it when that group starts with a continuation byte.
\<close>

fun utf8_chars :: "string \<Rightarrow> string list" where
  "utf8_chars [] = []"
| "utf8_chars (c # cs) =
     (case utf8_chars cs of
        [] \<Rightarrow> [[c]]
      | g # gs \<Rightarrow> (if g \<noteq> [] \<and> is_cont (hd g) then (c # g) # gs else [c] # g # gs))"

text \<open>The code points for which \<open>str.isspace\<close> holds, as UTF-8.\<close>

definition whitespace :: "string list" where
  "whitespace =
     [[CHR 0x09], [CHR 0x0A], [CHR 0x0B], [CHR 0x0C], [CHR 0x0D],
      [CHR 0x1C], [CHR 0x1D], [CHR 0x1E], [CHR 0x1F], [CHR 0x20],
      [CHR 0xC2, CHR 0x85], [CHR 0xC2, CHR 0xA0], [CHR 0xE1, CHR 0x9A, CHR 0x80],
      [CHR 0xE2, CHR 0x80, CHR 0x80], [CHR 0xE2, CHR 0x80, CHR 0x81],
      [CHR 0xE2, CHR 0x80, CHR 0x82], [CHR 0xE2, CHR 0x80, CHR 0x83],
      [CHR 0xE2, CHR 0x80, CHR 0x84], [CHR 0xE2, CHR 0x80, CHR 0x85],
      [CHR 0xE2, CHR 0x80, CHR 0x86], [CHR 0xE2, CHR 0x80, CHR 0x87],
      [CHR 0xE2, CHR 0x80, CHR 0x88], [CHR 0xE2, CHR 0x80, CHR 0x89],
      [CHR 0xE2, CHR 0x80, CHR 0x8A], [CHR 0xE2, CHR 0x80, CHR 0xA8],
      [CHR 0xE2, CHR 0x80, CHR 0xA9], [CHR 0xE2, CHR 0x80, CHR 0xAF],
      [CHR 0xE2, CHR 0x81, CHR 0x9F], [CHR 0xE3, CHR 0x80, CHR 0x80]]"

definition isspace :: "string \<Rightarrow> bool" where
  "isspace g = (g \<in> set whitespace)"

text \<open>\<open>str.strip()\<close> with no argument.\<close>

definition strip :: "string \<Rightarrow> string" where
  "strip s = concat (rev (dropWhile isspace (rev (dropWhile isspace (utf8_chars s)))))"

text \<open>\<open>s.startswith(p)\<close> and the slice \<open>s[n:]\<close> behind an ASCII prefix of \<open>n\<close> bytes.\<close>

definition startswith :: "string \<Rightarrow> string \<Rightarrow> bool" where
  "startswith s p = (take (length p) s = p)"

subsection \<open>JSON values and the operators the clients apply to them\<close>

text \<open>
  What \<open>json.loads\<close> returns. A \<open>dict\<close> is an association list in which a key is
  looked up with \<^const>\<open>map_of\<close>.
\<close>

datatype json =
    JNull
  | JBool bool
  | JInt int
  | JFloat real
  | JStr string
  | JArr "json list"
  | JObj "(string \<times> json) list"

fun type_name :: "json \<Rightarrow> string" where
  "type_name JNull = ''NoneType''"
| "type_name (JBool b) = ''bool''"
| "type_name (JInt i) = ''int''"
| "type_name (JFloat r) = ''float''"
| "type_name (JStr s) = ''str''"
| "type_name (JArr xs) = ''list''"
| "type_name (JObj kv) = ''dict''"

text \<open>Truth value of an object, as \<open>if x:\<close> takes it.\<close>

fun truthy :: "json \<Rightarrow> bool" where
  "truthy JNull = False"
| "truthy (JBool b) = b"
| "truthy (JInt i) = (i \<noteq> 0)"
| "truthy (JFloat r) = (r \<noteq> 0)"
| "truthy (JStr s) = (s \<noteq> [])"
| "truthy (JArr xs) = (xs \<noteq> [])"
| "truthy (JObj kv) = (kv \<noteq> [])"

text \<open>Is \<open>p\<close> a contiguous part of \<open>s\<close>: the operator \<open>in\<close> between two \<open>str\<close>.\<close>

fun substring :: "string \<Rightarrow> string \<Rightarrow> bool" where
  "substring p [] = (p = [])"
| "substring p (c # cs) = (startswith (c # cs) p \<or> substring p cs)"

text \<open>\<open>key in x\<close> for a \<open>str\<close> key.\<close>

fun py_contains :: "string \<Rightarrow> json \<Rightarrow> exn + bool" where
  "py_contains k (JObj kv) = Inr (map_of kv k \<noteq> None)"
| "py_contains k (JArr xs) = Inr (JStr k \<in> set xs)"
| "py_contains k (JStr s) = Inr (substring k s)"
| "py_contains k v =
     Inl (Exn TypeError (''argument of type '' @ [CHR 0x27] @ type_name v @ [CHR 0x27]
                         @ '' is not iterable''))"

text \<open>\<open>x[key]\<close> for a \<open>str\<close> key.\<close>

fun py_getitem :: "json \<Rightarrow> string \<Rightarrow> exn + json" where
  "py_getitem (JObj kv) k =
     (case map_of kv k of
        None \<Rightarrow> Inl (Exn KeyError ([CHR 0x27] @ k @ [CHR 0x27]))
      | Some v \<Rightarrow> Inr v)"
| "py_getitem (JArr xs) k =
     Inl (Exn TypeError ''list indices must be integers or slices, not str'')"
| "py_getitem (JStr s) k = Inl (Exn TypeError ''string indices must be integers'')"
| "py_getitem v k =
     Inl (Exn TypeError ([CHR 0x27] @ type_name v @ [CHR 0x27]
                         @ '' object is not subscriptable''))"

text \<open>\<open>x[0]\<close>. A \<open>dict\<close> made by \<open>json.loads\<close> has \<open>str\<close> keys only.\<close>

fun py_getitem0 :: "json \<Rightarrow> exn + json" where
  "py_getitem0 (JArr []) = Inl (Exn IndexError ''list index out of range'')"
| "py_getitem0 (JArr (x # xs)) = Inr x"
| "py_getitem0 (JStr s) =
     (case utf8_chars s of
        [] \<Rightarrow> Inl (Exn IndexError ''string index out of range'')
      | g # gs \<Rightarrow> Inr (JStr g))"
| "py_getitem0 (JObj kv) = Inl (Exn KeyError ''0'')"
| "py_getitem0 v =
     Inl (Exn TypeError ([CHR 0x27] @ type_name v @ [CHR 0x27]
                         @ '' object is not subscriptable''))"

text \<open>\<open>x.get(key, default)\<close>: a method of \<open>dict\<close> alone.\<close>

fun py_get :: "json \<Rightarrow> string \<Rightarrow> json \<Rightarrow> exn + json" where
  "py_get (JObj kv) k d = Inr (case map_of kv k of None \<Rightarrow> d | Some v \<Rightarrow> v)"
| "py_get v k d =
     Inl (Exn AttributeError ([CHR 0x27] @ type_name v @ [CHR 0x27]
                              @ '' object has no attribute '' @ [CHR 0x27] @ ''get''
                              @ [CHR 0x27]))"

text \<open>\<open>len(x)\<close>.\<close>

fun py_len :: "json \<Rightarrow> exn + nat" where
  "py_len (JArr xs) = Inr (length xs)"
| "py_len (JStr s) = Inr (length (utf8_chars s))"
| "py_len (JObj kv) = Inr (length kv)"
| "py_len v =
     Inl (Exn TypeError (''object of type '' @ [CHR 0x27] @ type_name v @ [CHR 0x27]
                         @ '' has no len()''))"

text \<open>
  The right operand of \<open>ai_response += token\<close>, where \<open>ai_response\<close> is a
  \<open>str\<close>: a \<open>str\<close>, or the statement raises.
\<close>

fun str_operand :: "json \<Rightarrow> exn + string" where
  "str_operand (JStr t) = Inr t"
| "str_operand v =
     Inl (Exn TypeError (''can only concatenate str (not '' @ [CHR 0x22] @ type_name v
                         @ [CHR 0x22] @ '') to str''))"

text \<open>A number in an f-string.\<close>

fun show_nat :: "nat \<Rightarrow> string" where
  "show_nat n =
     (if n < 10 then [char_of (48 + n)]
      else show_nat (n div 10) @ [char_of (48 + n mod 10)])"

section \<open>The conversation held in memory\<close>

text \<open>An entry of \<open>conversation_history\<close>: \<open>{"role": ..., "content": ...}\<close>.\<close>

record message =
  role :: string
  content :: string

text \<open>
  The fields that \<open>OllamaChat\<close>, \<open>VLLMChat\<close> and \<open>LLMGUIChat\<close> declare under the
  same names.
\<close>

record chat =
  conversation_history :: "message list"
  show_reasoning :: bool
  reasoning_mode :: string

subsection \<open>The reasoning templates\<close>

definition detailed_prompt :: string where
  "detailed_prompt =
     ''\<newline>Think step by step about this question. Show your detailed reasoning process:\<newline>\<newline>**''
     @ [CHR 0xF0, CHR 0x9F, CHR 0xA4, CHR 0x94]
     @ '' Analysis:**\<newline>1. What is being asked?\<newline>2. What information do I need to consider?\<newline>3. What are the key points or constraints?\<newline>\<newline>**''
     @ [CHR 0xF0, CHR 0x9F, CHR 0xA7, CHR 0xA9]
     @ '' Breakdown:**\<newline>- Break down the problem into smaller parts\<newline>- Consider different approaches or perspectives\<newline>- Identify any assumptions I'm making\<newline>\<newline>**''
     @ [CHR 0xE2, CHR 0x9A, CHR 0xA1]
     @ '' Logic Chain:**\<newline>- Step through the reasoning logically\<newline>- Show how each step leads to the next\<newline>- Consider potential counterarguments or edge cases\<newline>\<newline>**''
     @ [CHR 0xF0, CHR 0x9F, CHR 0x92, CHR 0xA1]
     @ '' Conclusion:**\<newline>[Your final answer with confidence level]\<newline>\<newline>Question: ''"

definition simple_prompt :: string where
  "simple_prompt =
     ''\<newline>Show your thinking process briefly:\<newline>\<newline>**''
     @ [CHR 0xF0, CHR 0x9F, CHR 0xA4, CHR 0x94]
     @ '' Thinking:** [Quick reasoning steps]\<newline>**''
     @ [CHR 0xF0, CHR 0x9F, CHR 0x92, CHR 0xA1]
     @ '' Answer:** [Your response]\<newline>\<newline>Question: ''"

definition chain_prompt :: string where
  "chain_prompt =
     ''\<newline>Use chain-of-thought reasoning. Think through this step-by-step, showing each logical step:\<newline>\<newline>Let me think through this step by step:\<newline>Step 1: [First step of reasoning]\<newline>Step 2: [Second step of reasoning]\<newline>Step 3: [Continue as needed]\<newline>Therefore: [Final conclusion]\<newline>\<newline>Question: ''"

text \<open>The dictionary \<open>self.reasoning_prompts\<close>, in the order the source writes it.\<close>

definition reasoning_prompts :: "(string \<times> string) list" where
  "reasoning_prompts =
     [(''detailed'', detailed_prompt), (''simple'', simple_prompt), (''chain'', chain_prompt)]"

text \<open>\<open>d.get(key, default)\<close> on a dictionary of strings.\<close>

definition dict_get :: "(string \<times> string) list \<Rightarrow> string \<Rightarrow> string \<Rightarrow> string" where
  "dict_get d k dflt = (case map_of d k of None \<Rightarrow> dflt | Some v \<Rightarrow> v)"

section \<open>\<open>VLLMChat\<close>: composing the message list\<close>

text \<open>
  \<open>VLLMChat._build_messages\<close>: a copy of the role and content of every entry of the
  history, then the new user entry, prefixed by the template of the mode when
  reasoning is on. \<open>self.reasoning_prompts["simple"]\<close> is the default of the lookup.
\<close>

definition VLLMChat_build_messages :: "'a chat_scheme \<Rightarrow> string \<Rightarrow> message list" where
  "VLLMChat_build_messages self user_input =
     (let messages = map (\<lambda>msg. \<lparr>role = role msg, content = content msg\<rparr>)
                         (conversation_history self);
          content = (if show_reasoning self
                     then dict_get reasoning_prompts (reasoning_mode self) simple_prompt
                          @ user_input
                     else user_input)
      in messages @ [\<lparr>role = ''user'', content = content\<rparr>])"

section \<open>Streamed responses\<close>

text \<open>
  What \<open>response.iter_lines()\<close> delivers: the lines, then either the end of the body
  or an exception raised while the next line is awaited (a dropped connection, or the
  user's interrupt while the client waits).
\<close>

datatype stream_end = Eof | Raises exn

record response =
  status_code :: nat
  resp_text :: string
  iter_lines :: "string list"
  ending :: stream_end

text \<open>
  The outcome of \<open>requests.post\<close>, which the model takes as given: the request is
  built by the source from the prompt or the message list and the backend answers.
\<close>

datatype post_result = PostRaises exn | Response response

text \<open>What the body of the \<open>for\<close> loop does with the loop after one line.\<close>

datatype ctl = Continue | BreakLoop | Raise exn

datatype loop_exit = Exhausted | Break | Raised exn

text \<open>
  The loop \<open>for line in response.iter_lines(): if line: ...\<close> of the four streaming
  clients. \<open>step\<close> is the body under \<open>if line:\<close>; it appends at most one token to
  \<open>ai_response\<close> and emits it (printed by the command-line clients, yielded by the
  web client). The result is the final \<open>ai_response\<close>, the tokens emitted in order,
  and how the loop was left.
\<close>

fun for_lines ::
  "(string \<Rightarrow> string option \<times> ctl) \<Rightarrow> string list \<Rightarrow> stream_end \<Rightarrow> string
   \<Rightarrow> string \<times> string list \<times> loop_exit" where
  "for_lines step [] fin ai =
     (ai, [], (case fin of Eof \<Rightarrow> Exhausted | Raises e \<Rightarrow> Raised e))"
| "for_lines step (line # rest) fin ai =
     (if line = [] then for_lines step rest fin ai
      else
        (case step line of
           (None, Continue) \<Rightarrow> for_lines step rest fin ai
         | (None, BreakLoop) \<Rightarrow> (ai, [], Break)
         | (None, Raise e) \<Rightarrow> (ai, [], Raised e)
         | (Some t, Continue) \<Rightarrow>
             (case for_lines step rest fin (ai @ t) of
                (ai', toks, x) \<Rightarrow> (ai', t # toks, x))
         | (Some t, BreakLoop) \<Rightarrow> (ai @ t, [t], Break)
         | (Some t, Raise e) \<Rightarrow> (ai @ t, [t], Raised e)))"

subsection \<open>The raw-generate dialect (Ollama)\<close>

text \<open>\<open>if chunk.get('done', False): break\<close>.\<close>

definition done_ctl :: "json \<Rightarrow> ctl" where
  "done_ctl chunk =
     (case py_get chunk ''done'' (JBool False) of
        Inl e \<Rightarrow> Raise e
      | Inr d \<Rightarrow> (if truthy d then BreakLoop else Continue))"

text \<open>
  The body of the loop in \<open>OllamaChat._send_streaming_message\<close> and in
  \<open>LLMGUIChat._stream_ollama\<close>. \<open>loads\<close> is \<open>json.loads\<close>, with \<open>None\<close> for
  \<open>JSONDecodeError\<close>, the one exception the body catches.
\<close>

definition ollama_step :: "(string \<Rightarrow> json option) \<Rightarrow> string \<Rightarrow> string option \<times> ctl" where
  "ollama_step loads line =
     (case decode_utf8 line of
        Inl e \<Rightarrow> (None, Raise e)
      | Inr s \<Rightarrow>
          (case loads s of
             None \<Rightarrow> (None, Continue)
           | Some chunk \<Rightarrow>
               (case py_contains ''response'' chunk of
                  Inl e \<Rightarrow> (None, Raise e)
                | Inr has \<Rightarrow>
                    (if has then
                       (case py_getitem chunk ''response'' of
                          Inl e \<Rightarrow> (None, Raise e)
                        | Inr token \<Rightarrow>
                            (case str_operand token of
                               Inl e \<Rightarrow> (None, Raise e)
                             | Inr t \<Rightarrow> (Some t, done_ctl chunk)))
                     else (None, done_ctl chunk)))))"

subsection \<open>The OpenAI-compatible dialect (vLLM)\<close>

text \<open>
  The block under \<open>if 'choices' in chunk and ...\<close>, once that test has passed:
  \<open>delta = chunk['choices'][0].get('delta', {})\<close>, then the token under
  \<open>'content'\<close>, if there is one.
\<close>

definition delta_content :: "json \<Rightarrow> exn + string option" where
  "delta_content choices =
     (case py_getitem0 choices of
        Inl e \<Rightarrow> Inl e
      | Inr c0 \<Rightarrow>
          (case py_get c0 ''delta'' (JObj []) of
             Inl e \<Rightarrow> Inl e
           | Inr delta \<Rightarrow>
               (case py_contains ''content'' delta of
                  Inl e \<Rightarrow> Inl e
                | Inr has \<Rightarrow>
                    (if has then
                       (case py_getitem delta ''content'' of
                          Inl e \<Rightarrow> Inl e
                        | Inr token \<Rightarrow>
                            (case str_operand token of
                               Inl e \<Rightarrow> Inl e
                             | Inr t \<Rightarrow> Inr (Some t)))
                     else Inr None))))"

text \<open>
  \<open>'choices' in chunk and len(chunk['choices']) > 0\<close>, as \<open>VLLMChat\<close> tests it, and
  \<open>'choices' in chunk and chunk['choices']\<close>, as \<open>LLMGUIChat._stream_vllm\<close> does.
  The flag \<open>by_len\<close> selects the first.
\<close>

definition has_choices :: "bool \<Rightarrow> json \<Rightarrow> exn + json option" where
  "has_choices by_len chunk =
     (case py_contains ''choices'' chunk of
        Inl e \<Rightarrow> Inl e
      | Inr has \<Rightarrow>
          (if has then
             (case py_getitem chunk ''choices'' of
                Inl e \<Rightarrow> Inl e
              | Inr choices \<Rightarrow>
                  (if by_len then
                     (case py_len choices of
                        Inl e \<Rightarrow> Inl e
                      | Inr n \<Rightarrow> Inr (if n > 0 then Some choices else None))
                   else Inr (if truthy choices then Some choices else None)))
           else Inr None))"

text \<open>
  The body of the loop in \<open>VLLMChat._send_streaming_message\<close> (\<open>by_len\<close>) and in
  \<open>LLMGUIChat._stream_vllm\<close>: a line that does not start with \<open>data: \<close> is passed
  over, \<open>[DONE]\<close> behind the prefix leaves the loop, anything else behind it goes to
  \<open>json.loads\<close>.
\<close>

definition vllm_step ::
  "bool \<Rightarrow> (string \<Rightarrow> json option) \<Rightarrow> string \<Rightarrow> string option \<times> ctl" where
  "vllm_step by_len loads line =
     (case decode_utf8 line of
        Inl e \<Rightarrow> (None, Raise e)
      | Inr line_str \<Rightarrow>
          (if startswith line_str ''data: '' then
             (let data_str = drop 6 line_str in
              if strip data_str = ''[DONE]'' then (None, BreakLoop)
              else
                (case loads data_str of
                   None \<Rightarrow> (None, Continue)
                 | Some chunk \<Rightarrow>
                     (case has_choices by_len chunk of
                        Inl e \<Rightarrow> (None, Raise e)
                      | Inr None \<Rightarrow> (None, Continue)
                      | Inr (Some choices) \<Rightarrow>
                          (case delta_content choices of
                             Inl e \<Rightarrow> (None, Raise e)
                           | Inr tok \<Rightarrow> (tok, Continue)))))
           else (None, Continue)))"

section \<open>The command-line clients\<close>

definition bot_prompt :: string where
  "bot_prompt = [CHR 0xF0, CHR 0x9F, CHR 0xA4, CHR 0x96] @ '' Bot: ''"

definition interrupted_notice :: string where
  "interrupted_notice =
     ''\<newline>'' @ [CHR 0xE2, CHR 0x9A, CHR 0xA0, CHR 0xEF, CHR 0xB8, CHR 0x8F]
     @ '' Response interrupted by user\<newline>''"

definition http_error :: "response \<Rightarrow> string" where
  "http_error r = ''Error: HTTP '' @ show_nat (status_code r) @ '' - '' @ resp_text r"

text \<open>
  The part the two \<open>_send_streaming_message\<close> methods share word for word, from
  \<open>requests.post\<close> on. The result is the object afterwards, what was printed (one
  entry for each \<open>print\<close>), and the value returned or the exception that leaves the
  method. Only \<open>KeyboardInterrupt\<close> is caught around the loop.
\<close>

definition send_streaming ::
  "(string \<Rightarrow> string option \<times> ctl) \<Rightarrow> post_result \<Rightarrow> 'a chat_scheme
   \<Rightarrow> 'a chat_scheme \<times> string list \<times> (exn + string)" where
  "send_streaming step post self =
     (case post of
        PostRaises e \<Rightarrow> (self, [], Inl e)
      | Response r \<Rightarrow>
          (if status_code r \<noteq> 200 then (self, [], Inr (http_error r))
           else
             (case for_lines step (iter_lines r) (ending r) [] of
                (ai, toks, x) \<Rightarrow>
                  (let out = bot_prompt # toks;
                       finish = (\<lambda>ai_response out.
                         (self\<lparr>conversation_history := conversation_history self
                                  @ [\<lparr>role = ''assistant'', content = ai_response\<rparr>]\<rparr>,
                          out @ [''\<newline>''], Inr ai_response))
                   in (case x of
                         Raised e \<Rightarrow>
                           (if kind e = KeyboardInterrupt
                            then finish (ai @ '' [Response interrupted]'')
                                        (out @ [interrupted_notice])
                            else (self, out, Inl e))
                       | _ \<Rightarrow> finish ai out)))))"

definition OllamaChat_send_streaming_message ::
  "(string \<Rightarrow> json option) \<Rightarrow> post_result \<Rightarrow> 'a chat_scheme
   \<Rightarrow> 'a chat_scheme \<times> string list \<times> (exn + string)" where
  "OllamaChat_send_streaming_message loads post self =
     send_streaming (ollama_step loads) post self"

definition VLLMChat_send_streaming_message ::
  "(string \<Rightarrow> json option) \<Rightarrow> post_result \<Rightarrow> 'a chat_scheme
   \<Rightarrow> 'a chat_scheme \<times> string list \<times> (exn + string)" where
  "VLLMChat_send_streaming_message loads post self =
     send_streaming (vllm_step True loads) post self"

section \<open>Frames of a stream\<close>

text \<open>
  The kinds of line the streaming claims speak of, read off the value that
  \<open>json.loads\<close> returns for the line. \<open>obj_field\<close> is the value under a key when the
  value is an object that has the key, \<open>first_item\<close> the first element of a non-empty
  array.
\<close>

fun obj_field :: "json option \<Rightarrow> string \<Rightarrow> json option" where
  "obj_field (Some (JObj kv)) k = map_of kv k"
| "obj_field v k = None"

fun first_item :: "json option \<Rightarrow> json option" where
  "first_item (Some (JArr (x # xs))) = Some x"
| "first_item v = None"

fun is_obj :: "json option \<Rightarrow> bool" where
  "is_obj (Some (JObj kv)) = True"
| "is_obj v = False"

text \<open>
  A Delta frame of the raw-generate dialect: a JSON object whose \<open>response\<close> is the
  text fragment and whose \<open>done\<close> is absent or false.
\<close>

definition ollama_delta_frame :: "(string \<Rightarrow> json option) \<Rightarrow> string \<Rightarrow> string \<Rightarrow> bool" where
  "ollama_delta_frame loads line frag =
     (line \<noteq> [] \<and> utf8_valid line
      \<and> obj_field (loads line) ''response'' = Some (JStr frag)
      \<and> (case obj_field (loads line) ''done'' of None \<Rightarrow> True | Some d \<Rightarrow> \<not> truthy d))"

text \<open>
  A terminal frame of the raw-generate dialect: a JSON object whose \<open>done\<close> is true.
  \<open>carried\<close> is the text under \<open>response\<close> in that same object, if the object has
  the key.
\<close>

definition ollama_terminal_frame ::
  "(string \<Rightarrow> json option) \<Rightarrow> string \<Rightarrow> string option \<Rightarrow> bool" where
  "ollama_terminal_frame loads line carried =
     (line \<noteq> [] \<and> utf8_valid line
      \<and> (case obj_field (loads line) ''done'' of None \<Rightarrow> False | Some d \<Rightarrow> truthy d)
      \<and> (case obj_field (loads line) ''response'' of
            None \<Rightarrow> carried = None
          | Some v \<Rightarrow> (case carried of None \<Rightarrow> False | Some t \<Rightarrow> v = JStr t)))"

text \<open>
  A Delta frame of the OpenAI-compatible dialect: \<open>data: \<close> followed by a JSON object
  with the fragment under \<open>choices[0].delta.content\<close>.
\<close>

definition vllm_delta_frame :: "(string \<Rightarrow> json option) \<Rightarrow> string \<Rightarrow> string \<Rightarrow> bool" where
  "vllm_delta_frame loads line frag =
     (utf8_valid line \<and> startswith line ''data: '' \<and> strip (drop 6 line) \<noteq> ''[DONE]''
      \<and> obj_field
            (obj_field (first_item (obj_field (loads (drop 6 line)) ''choices'')) ''delta'')
            ''content''
          = Some (JStr frag))"

text \<open>The terminal frame of that dialect: \<open>data: [DONE]\<close>.\<close>

definition sse_done_frame :: "string \<Rightarrow> bool" where
  "sse_done_frame line =
     (utf8_valid line \<and> startswith line ''data: '' \<and> strip (drop 6 line) = ''[DONE]'')"

text \<open>
  Lines of text that carry no fragment and do not end the stream. Raw-generate: the
  text is no JSON, or it is an object without \<open>response\<close> whose \<open>done\<close> is absent or
  false. OpenAI-compatible: the line has no \<open>data: \<close> prefix, or what follows the
  prefix is neither \<open>[DONE]\<close> nor JSON, or it is an object without \<open>choices\<close>, with
  an empty list of choices, or whose first choice is an object with no \<open>content\<close> in
  its \<open>delta\<close>.
\<close>

definition ollama_skipped :: "(string \<Rightarrow> json option) \<Rightarrow> string \<Rightarrow> bool" where
  "ollama_skipped loads line =
     (utf8_valid line
      \<and> (loads line = None
         \<or> (is_obj (loads line) \<and> obj_field (loads line) ''response'' = None
            \<and> (case obj_field (loads line) ''done'' of None \<Rightarrow> True | Some d \<Rightarrow> \<not> truthy d))))"

definition vllm_skipped :: "(string \<Rightarrow> json option) \<Rightarrow> string \<Rightarrow> bool" where
  "vllm_skipped loads line =
     (utf8_valid line
      \<and> (if startswith line ''data: '' then
           strip (drop 6 line) \<noteq> ''[DONE]''
           \<and> (loads (drop 6 line) = None
              \<or> (is_obj (loads (drop 6 line))
                 \<and> (case obj_field (loads (drop 6 line)) ''choices'' of
                      None \<Rightarrow> True
                    | Some choices \<Rightarrow>
                        choices = JArr []
                        \<or> (is_obj (first_item (Some choices))
                           \<and> (case obj_field (first_item (Some choices)) ''delta'' of
                                None \<Rightarrow> True
                              | Some delta \<Rightarrow>
                                  is_obj (Some delta)
                                  \<and> obj_field (Some delta) ''content'' = None)))))
         else True))"

text \<open>The text a terminal frame carries, and the tokens it adds to the output.\<close>

definition carried_text :: "string option \<Rightarrow> string" where
  "carried_text c = (case c of None \<Rightarrow> [] | Some t \<Rightarrow> t)"

definition carried_tokens :: "string option \<Rightarrow> string list" where
  "carried_tokens c = (case c of None \<Rightarrow> [] | Some t \<Rightarrow> [t])"

text \<open>The history after \<open>self.conversation_history.append\<close> of an assistant entry.\<close>

definition add_assistant :: "'a chat_scheme \<Rightarrow> string \<Rightarrow> 'a chat_scheme" where
  "add_assistant self t =
     self\<lparr>conversation_history := conversation_history self
            @ [\<lparr>role = ''assistant'', content = t\<rparr>]\<rparr>"

subsection \<open>Example inputs\<close>

text \<open>
  \<open>json.loads\<close> on the texts the examples below use; any other text of the examples
  is no JSON.
\<close>

definition example_loads :: "string \<Rightarrow> json option" where
  \<open>example_loads =
     map_of
       [(''{"response":"He"}'', JObj [(''response'', JStr ''He'')]),
        (''{"response":"llo","done":false}'',
           JObj [(''response'', JStr ''llo''), (''done'', JBool False)]),
        (''{"done":true}'', JObj [(''done'', JBool True)]),
        (''{"response":"!","done":true}'',
           JObj [(''response'', JStr ''!''), (''done'', JBool True)]),
        (''{"choices":[{"delta":{"content":"He"}}]}'',
           JObj [(''choices'', JArr [JObj [(''delta'', JObj [(''content'', JStr ''He'')])]])]),
        (''{"choices":[{"delta":{"content":"llo"}}]}'',
           JObj [(''choices'', JArr [JObj [(''delta'', JObj [(''content'', JStr ''llo'')])]])])]\<close>

definition example_chat :: chat where
  "example_chat =
     \<lparr>conversation_history = [\<lparr>role = ''user'', content = ''hi''\<rparr>],
      show_reasoning = False, reasoning_mode = ''simple''\<rparr>"

section \<open>The conversation store: \<open>ChatDatabaseManager\<close>\<close>

text \<open>
  The two tables of \<open>init_database\<close>, without the timestamp columns. A UUID is a
  natural number. The value that \<open>uuid_generate_v4()\<close> produces for an insert is an
  argument of the operation.
\<close>

type_synonym uuid = nat

type_synonym metadata = "(string \<times> json) list"

record session_row =
  session_id :: uuid
  s_session_name :: string
  s_backend :: string
  s_model :: string
  s_metadata :: metadata

record message_row =
  message_id :: uuid
  m_session_id :: uuid
  m_role :: string
  m_content :: string
  message_order :: int
  m_metadata :: metadata

text \<open>
  The database: the rows of the two tables in the order of their insertion, and
  whether \<open>psycopg2.connect\<close> succeeds.
\<close>

record database =
  chat_sessions :: "session_row list"
  chat_messages :: "message_row list"
  reachable :: bool

text \<open>The number of characters of a text, which \<open>VARCHAR(n)\<close> bounds.\<close>

definition char_length :: "string \<Rightarrow> nat" where
  "char_length s = length (utf8_chars s)"

definition db_error :: "string \<Rightarrow> exn" where
  "db_error t = Exn DatabaseError t"

text \<open>
  \<open>create_session\<close>. The name defaults to backend, model and the time of the call,
  \<open>now\<close> being \<open>datetime.now().strftime("%Y-%m-%d %H:%M")\<close>. The insert fails,
  and the transaction is rolled back, when a value is longer than its column or the
  key exists; otherwise it is committed.
\<close>

definition default_session_name :: "string \<Rightarrow> string \<Rightarrow> string \<Rightarrow> string" where
  "default_session_name backend model now = backend @ ''-'' @ model @ ''-'' @ now"

definition create_session ::
  "database \<Rightarrow> uuid \<Rightarrow> string \<Rightarrow> string \<Rightarrow> string \<Rightarrow> string option
   \<Rightarrow> exn + (database \<times> uuid)" where
  "create_session db new_id now backend model session_name =
     (let name = (case session_name of
                    None \<Rightarrow> default_session_name backend model now
                  | Some n \<Rightarrow> (if n = [] then default_session_name backend model now else n))
      in if \<not> reachable db then Inl (db_error ''connection failed'')
         else if char_length name > 255 \<or> char_length backend > 50 \<or> char_length model > 100
           then Inl (db_error ''value too long for type character varying'')
         else if new_id \<in> set (map session_id (chat_sessions db))
           then Inl (db_error ''duplicate key value violates unique constraint'')
         else Inr (db\<lparr>chat_sessions := chat_sessions db
                         @ [\<lparr>session_id = new_id, s_session_name = name, s_backend = backend,
                             s_model = model, s_metadata = []\<rparr>]\<rparr>,
                   new_id))"

text \<open>The values of \<open>message_order\<close> of a session, in the order of insertion.\<close>

definition session_orders :: "database \<Rightarrow> uuid \<Rightarrow> int list" where
  "session_orders db sid =
     map message_order (filter (\<lambda>m. m_session_id m = sid) (chat_messages db))"

text \<open>\<open>SELECT COALESCE(MAX(message_order), 0) + 1 ... WHERE session_id = %s\<close>.\<close>

definition next_message_order :: "database \<Rightarrow> uuid \<Rightarrow> int" where
  "next_message_order db sid =
     (case session_orders db sid of [] \<Rightarrow> 0 | x # xs \<Rightarrow> fold max xs x) + 1"

text \<open>
  \<open>add_message\<close>: the \<open>SELECT\<close> of the next order and the \<open>INSERT\<close>, in one
  transaction. The addition overflows the type \<open>INTEGER\<close> behind 2147483647; the
  insert fails on a role outside the \<open>CHECK\<close> list (which bounds its length too), on
  a session that does not exist and on a key that exists.
\<close>

definition add_message ::
  "database \<Rightarrow> uuid \<Rightarrow> uuid \<Rightarrow> string \<Rightarrow> string \<Rightarrow> metadata \<Rightarrow> exn + (database \<times> uuid)" where
  "add_message db new_id sid a_role a_content a_metadata =
     (if \<not> reachable db then Inl (db_error ''connection failed'')
      else
        (let next_order = next_message_order db sid
         in if next_order > 2147483647 then Inl (db_error ''integer out of range'')
            else if a_role \<notin> set [''user'', ''assistant'', ''system'']
              then Inl (db_error ''violates check constraint'')
            else if sid \<notin> set (map session_id (chat_sessions db))
              then Inl (db_error ''violates foreign key constraint'')
            else if new_id \<in> set (map message_id (chat_messages db))
              then Inl (db_error ''duplicate key value violates unique constraint'')
            else Inr (db\<lparr>chat_messages := chat_messages db
                            @ [\<lparr>message_id = new_id, m_session_id = sid, m_role = a_role,
                                m_content = a_content, message_order = next_order,
                                m_metadata = a_metadata\<rparr>]\<rparr>,
                      new_id)))"






definition example_db :: database where
  "example_db =
     \<lparr>chat_sessions = [\<lparr>session_id = 7, s_session_name = ''demo'', s_backend = ''ollama'',
                         s_model = ''llama3.1:8b'', s_metadata = []\<rparr>],
      chat_messages = [], reachable = True\<rparr>"

section \<open>The web client: \<open>LLMGUIChat\<close>\<close>

text \<open>
  The class of \<open>chat_gui.py\<close>, which \<open>DatabaseLLMGUIChat\<close> extends (its module
  imports the class under the same name from \<open>thai_model.interfaces.web_chat\<close>).
\<close>

record LLMGUIChat = chat +
  backend :: string
  current_model :: string

text \<open>What a generator yields: the cleared input box, the chat to display, the status.\<close>

type_synonym yielded = "string \<times> message list \<times> string"

definition cross :: string where
  "cross = [CHR 0xE2, CHR 0x9D, CHR 0x8C] @ '' ''"

definition please_enter :: string where
  "please_enter = cross @ ''Please enter a message''"

definition streaming_status :: "string \<Rightarrow> string \<Rightarrow> string" where
  "streaming_status name a_model =
     [CHR 0xF0, CHR 0x9F, CHR 0x94, CHR 0x84] @ '' Streaming from '' @ name @ '': '' @ a_model"

definition completed_status :: "string \<Rightarrow> string \<Rightarrow> string" where
  "completed_status name a_model =
     [CHR 0xE2, CHR 0x9C, CHR 0x85] @ '' Response completed using '' @ name @ '': ''
     @ a_model"

definition cleared_status :: string where
  "cleared_status =
     [CHR 0xF0, CHR 0x9F, CHR 0x97, CHR 0x91, CHR 0xEF, CHR 0xB8, CHR 0x8F]
     @ '' Conversation cleared''"

text \<open>
  \<open>history[-1]["content"] = c\<close>. Where the source executes it the list ends with
  the assistant entry appended by \<open>send_message_stream\<close>.
\<close>

definition set_last_content :: "message list \<Rightarrow> string \<Rightarrow> message list" where
  "set_last_content h c =
     (case rev h of [] \<Rightarrow> [] | m # ms \<Rightarrow> rev ms @ [m\<lparr>content := c\<rparr>])"

text \<open>
  The three statements the loop executes for a token: \<open>ai_response += token\<close>,
  \<open>history[-1]["content"] = ai_response\<close> and the \<open>yield\<close>. A yield is paired
  with the object as it is while the generator is suspended there.
\<close>

fun emit_tokens ::
  "string \<Rightarrow> 's \<Rightarrow> string \<Rightarrow> message list \<Rightarrow> string list
   \<Rightarrow> (yielded \<times> 's) list \<times> message list" where
  "emit_tokens status self ai history [] = ([], history)"
| "emit_tokens status self ai history (t # ts) =
     (let ai' = ai @ t; h = set_last_content history ai'
      in (case emit_tokens status self ai' h ts of
            (ys, h') \<Rightarrow> ((([], h, status), self) # ys, h')))"

text \<open>
  \<open>_stream_ollama\<close> and \<open>_stream_vllm\<close> from \<open>requests.post\<close> on; they differ
  in the body of the loop and in the name in the status. The result is the yields, the
  object and the displayed chat at the end, and the exception that leaves the
  generator, if any.
\<close>

definition stream_backend ::
  "string \<Rightarrow> (string \<Rightarrow> string option \<times> ctl) \<Rightarrow> post_result \<Rightarrow> 'a LLMGUIChat_scheme
   \<Rightarrow> message list
   \<Rightarrow> (yielded \<times> 'a LLMGUIChat_scheme) list \<times> 'a LLMGUIChat_scheme \<times> message list
      \<times> exn option" where
  "stream_backend name step post self history =
     (case post of
        PostRaises e \<Rightarrow> ([], self, history, Some e)
      | Response r \<Rightarrow>
          (if status_code r \<noteq> 200 then
             (let error_msg = http_error r;
                  h = set_last_content history (cross @ error_msg)
              in ([(([], h, error_msg), self)], self, h, None))
           else
             (case for_lines step (iter_lines r) (ending r) [] of
                (ai, toks, x) \<Rightarrow>
                  (case emit_tokens (streaming_status name (current_model self)) self []
                          history toks of
                     (ys, h) \<Rightarrow>
                       (case x of
                          Raised e \<Rightarrow> (ys, self, h, Some e)
                        | _ \<Rightarrow>
                            (let self' = add_assistant self ai
                             in (ys @ [(([], h, completed_status name (current_model self)),
                                        self')],
                                 self', h, None)))))))"

definition user_entry :: "string \<Rightarrow> message" where
  "user_entry t = \<lparr>role = ''user'', content = t\<rparr>"

text \<open>
  The four assignments with which \<open>send_message_stream\<close> starts, in the class and
  in its subclass.
\<close>

definition with_settings ::
  "'a LLMGUIChat_scheme \<Rightarrow> string \<Rightarrow> string \<Rightarrow> bool \<Rightarrow> string \<Rightarrow> 'a LLMGUIChat_scheme" where
  "with_settings self a_backend a_model reasoning mode =
     self\<lparr>backend := a_backend, current_model := a_model,
          show_reasoning := reasoning, reasoning_mode := mode\<rparr>"

text \<open>
  The handler of \<open>send_message_stream\<close> for an exception \<open>e\<close> out of the stream:
  \<open>requests.exceptions.RequestException\<close> first, then \<open>Exception\<close>; anything else
  is not caught.
\<close>

definition error_yield ::
  "exn \<Rightarrow> 's \<Rightarrow> message list \<Rightarrow> (yielded \<times> 's) list" where
  "error_yield e self h =
     (if is_RequestException e then
        (let error_msg = ''Connection error: '' @ str_exn e
         in [(([], set_last_content h (cross @ error_msg), error_msg), self)])
      else if is_Exception e then
        (let error_msg = ''Unexpected error: '' @ str_exn e
         in [(([], set_last_content h (cross @ error_msg), error_msg), self)])
      else [])"

text \<open>
  \<open>LLMGUIChat.send_message_stream\<close>, run until the generator is exhausted. The
  last component is the exception that leaves it.
\<close>

definition LLMGUIChat_send_message_stream ::
  "(string \<Rightarrow> json option) \<Rightarrow> post_result \<Rightarrow> 'a LLMGUIChat_scheme \<Rightarrow> string
   \<Rightarrow> message list \<Rightarrow> string \<Rightarrow> string \<Rightarrow> bool \<Rightarrow> string
   \<Rightarrow> (yielded \<times> 'a LLMGUIChat_scheme) list \<times> 'a LLMGUIChat_scheme \<times> exn option" where
  "LLMGUIChat_send_message_stream loads post self msg history a_backend a_model reasoning mode =
     (if strip msg = [] then ([(([], history, please_enter), self)], self, None)
      else
        (let self1 = with_settings self a_backend a_model reasoning mode;
             self2 = self1\<lparr>conversation_history :=
                              conversation_history self1 @ [user_entry msg]\<rparr>;
             history2 = history @ [user_entry msg, \<lparr>role = ''assistant'', content = []\<rparr>]
         in (case (if backend self2 = ''ollama''
                   then stream_backend ''Ollama'' (ollama_step loads) post self2 history2
                   else stream_backend ''vLLM'' (vllm_step False loads) post self2 history2) of
               (ys, self3, h, raised) \<Rightarrow>
                 (case raised of
                    None \<Rightarrow> (ys, self3, None)
                  | Some e \<Rightarrow>
                      (ys @ error_yield e self3 h, self3,
                       if is_Exception e then None else Some e)))))"

text \<open>\<open>LLMGUIChat.clear_conversation\<close>: the value returned and the object after it.\<close>

definition LLMGUIChat_clear_conversation ::
  "'a LLMGUIChat_scheme \<Rightarrow> (message list \<times> string) \<times> 'a LLMGUIChat_scheme" where
  "LLMGUIChat_clear_conversation self =
     (([], cleared_status), self\<lparr>conversation_history := []\<rparr>)"

section \<open>The web client with the store: \<open>DatabaseLLMGUIChat\<close>\<close>

record DatabaseLLMGUIChat = LLMGUIChat +
  database_enabled :: bool
  current_session_id :: "uuid option"
  session_name :: "string option"

text \<open>
  What a call takes from its environment: the clock, as the two renderings the source
  takes of \<open>datetime.now()\<close>, and the fresh UUIDs, those of the database for the
  session row and the two message rows and that of \<open>uuid.uuid4()\<close>.
\<close>

record env =
  now_ymd_hm :: string
  now_hm :: string
  session_uuid :: uuid
  user_uuid :: uuid
  assistant_uuid :: uuid
  uuid4 :: uuid

text \<open>
  \<open>start_new_session\<close>. An exception of \<open>create_session\<close> leaves the method; the
  memory-only fallback takes no row.
\<close>

definition start_new_session ::
  "env \<Rightarrow> 'a DatabaseLLMGUIChat_scheme \<Rightarrow> database \<Rightarrow> string \<Rightarrow> string \<Rightarrow> string option
   \<Rightarrow> exn + ('a DatabaseLLMGUIChat_scheme \<times> database \<times> uuid)" where
  "start_new_session ev self db a_backend a_model a_name =
     (let given = (case a_name of None \<Rightarrow> [] | Some n \<Rightarrow> n)
      in if database_enabled self then
           (case create_session db (session_uuid ev) (now_ymd_hm ev) a_backend a_model a_name of
              Inl e \<Rightarrow> Inl e
            | Inr (db', sid) \<Rightarrow>
                Inr (self\<lparr>current_session_id := Some sid,
                          session_name := Some (if given \<noteq> [] then given
                                                else default_session_name a_backend a_model
                                                       (now_ymd_hm ev)),
                          conversation_history := []\<rparr>,
                     db', sid))
         else
           Inr (self\<lparr>current_session_id := Some (uuid4 ev),
                     session_name := Some (if given \<noteq> [] then given
                                           else ''memory-session-'' @ now_hm ev),
                     conversation_history := []\<rparr>,
                db, uuid4 ev))"

text \<open>
  \<open>add_message_to_db\<close>: an exception of \<open>add_message\<close> is caught and reported on
  the console, and the database is as before.
\<close>

definition add_message_to_db ::
  "uuid \<Rightarrow> 'a DatabaseLLMGUIChat_scheme \<Rightarrow> database \<Rightarrow> string \<Rightarrow> string \<Rightarrow> metadata
   \<Rightarrow> database" where
  "add_message_to_db new_id self db a_role a_content a_metadata =
     (if database_enabled self then
        (case current_session_id self of
           None \<Rightarrow> db
         | Some sid \<Rightarrow>
             (case add_message db new_id sid a_role a_content a_metadata of
                Inl e \<Rightarrow> db
              | Inr (db', mid) \<Rightarrow> db'))
      else db)"

text \<open>\<open>if not self.current_session_id: self.start_new_session(backend, model)\<close>.\<close>

definition ensure_session ::
  "env \<Rightarrow> 'a DatabaseLLMGUIChat_scheme \<Rightarrow> database \<Rightarrow> string \<Rightarrow> string
   \<Rightarrow> exn + ('a DatabaseLLMGUIChat_scheme \<times> database)" where
  "ensure_session ev self db a_backend a_model =
     (if current_session_id self = None
      then (case start_new_session ev self db a_backend a_model None of
              Inl e \<Rightarrow> Inl e
            | Inr (s, d, sid) \<Rightarrow> Inr (s, d))
      else Inr (self, db))"

text \<open>The metadata written with the assistant message.\<close>

definition assistant_metadata :: "string \<Rightarrow> string \<Rightarrow> bool \<Rightarrow> string \<Rightarrow> metadata" where
  "assistant_metadata a_backend a_model reasoning mode =
     [(''backend'', JStr a_backend), (''model'', JStr a_model),
      (''reasoning_enabled'', JBool reasoning),
      (''reasoning_mode'', if reasoning then JStr mode else JNull)]"

text \<open>
  The statements of \<open>send_message_stream\<close> behind the loop over the parent's
  generator: the last entry of the history in memory is written to the store when its
  role is \<open>assistant\<close>.
\<close>

definition save_last_assistant ::
  "env \<Rightarrow> 'a DatabaseLLMGUIChat_scheme \<Rightarrow> database \<Rightarrow> string \<Rightarrow> string \<Rightarrow> bool \<Rightarrow> string
   \<Rightarrow> database" where
  "save_last_assistant ev self db a_backend a_model reasoning mode =
     (case rev (conversation_history self) of
        [] \<Rightarrow> db
      | m # ms \<Rightarrow>
          (if role m = ''assistant''
           then add_message_to_db (assistant_uuid ev) self db ''assistant'' (content m)
                  (assistant_metadata a_backend a_model reasoning mode)
           else db))"

text \<open>
  \<open>DatabaseLLMGUIChat.send_message_stream\<close>, run until the generator is exhausted.
  Each yield is paired with the object and the database as they are while the
  generator is suspended there; then come the object and the database at the end and
  the exception that leaves the generator, if any.
\<close>

definition DatabaseLLMGUIChat_send_message_stream ::
  "(string \<Rightarrow> json option) \<Rightarrow> env \<Rightarrow> post_result \<Rightarrow> 'a DatabaseLLMGUIChat_scheme \<Rightarrow> database
   \<Rightarrow> string \<Rightarrow> message list \<Rightarrow> string \<Rightarrow> string \<Rightarrow> bool \<Rightarrow> string
   \<Rightarrow> (yielded \<times> 'a DatabaseLLMGUIChat_scheme \<times> database) list
      \<times> ('a DatabaseLLMGUIChat_scheme \<times> database) \<times> exn option" where
  "DatabaseLLMGUIChat_send_message_stream loads ev post self db msg history a_backend a_model
       reasoning mode =
     (let self1 = with_settings self a_backend a_model reasoning mode
      in (case ensure_session ev self1 db a_backend a_model of
            Inl e \<Rightarrow> ([], (self1, db), Some e)
          | Inr (self2, db2) \<Rightarrow>
              (let db3 = add_message_to_db (user_uuid ev) self2 db2 ''user'' msg []
               in (case LLMGUIChat_send_message_stream loads post self2 msg history a_backend
                          a_model reasoning mode of
                     (ys, self3, raised) \<Rightarrow>
                       (let ys' = map (\<lambda>(y, s). (y, s, db3)) ys
                        in (case raised of
                              Some e \<Rightarrow> (ys', (self3, db3), Some e)
                            | None \<Rightarrow>
                                (ys',
                                 (self3,
                                  save_last_assistant ev self3 db3 a_backend a_model reasoning
                                    mode),
                                 None)))))))"

text \<open>\<open>DatabaseLLMGUIChat.clear_conversation\<close>. The database is not an argument.\<close>

definition DatabaseLLMGUIChat_clear_conversation ::
  "'a DatabaseLLMGUIChat_scheme
   \<Rightarrow> (message list \<times> string) \<times> 'a DatabaseLLMGUIChat_scheme" where
  "DatabaseLLMGUIChat_clear_conversation self =
     LLMGUIChat_clear_conversation (self\<lparr>current_session_id := None, session_name := None\<rparr>)"

section \<open>Exchanges\<close>

text \<open>
  How one streaming exchange with the backend goes, read off the branches of
  \<open>_stream_ollama\<close> and \<open>_stream_vllm\<close>: the request raises; the server
  answers with a status other than 200; the loop over the lines is left by an
  exception, after the tokens \<open>toks\<close> with \<open>ai_response = ai\<close>; or the loop ends,
  by \<open>break\<close> at the terminal frame or with the body.
\<close>

datatype outcome =
    Unreachable exn
  | Rejected response
  | Interrupted string "string list" exn
  | Completed string "string list"

definition backend_name :: "string \<Rightarrow> string" where
  "backend_name a_backend = (if a_backend = ''ollama'' then ''Ollama'' else ''vLLM'')"

definition backend_step ::
  "(string \<Rightarrow> json option) \<Rightarrow> string \<Rightarrow> string \<Rightarrow> string option \<times> ctl" where
  "backend_step loads a_backend =
     (if a_backend = ''ollama'' then ollama_step loads else vllm_step False loads)"

definition exchange :: "(string \<Rightarrow> json option) \<Rightarrow> string \<Rightarrow> post_result \<Rightarrow> outcome" where
  "exchange loads a_backend post =
     (case post of
        PostRaises e \<Rightarrow> Unreachable e
      | Response r \<Rightarrow>
          (if status_code r \<noteq> 200 then Rejected r
           else
             (case for_lines (backend_step loads a_backend) (iter_lines r) (ending r) [] of
                (ai, toks, x) \<Rightarrow>
                  (case x of Raised e \<Rightarrow> Interrupted ai toks e | _ \<Rightarrow> Completed ai toks))))"

text \<open>
  The object when the stream starts: the settings taken over and the user entry
  appended to the history in memory.
\<close>

definition started ::
  "'a LLMGUIChat_scheme \<Rightarrow> string \<Rightarrow> string \<Rightarrow> string \<Rightarrow> bool \<Rightarrow> string
   \<Rightarrow> 'a LLMGUIChat_scheme" where
  "started self msg a_backend a_model reasoning mode =
     (with_settings self a_backend a_model reasoning mode)
       \<lparr>conversation_history := conversation_history self @ [user_entry msg]\<rparr>"

text \<open>
  The yields of the tokens of a stream, and the chat displayed behind them.
\<close>

definition token_yields ::
  "string \<Rightarrow> 'a LLMGUIChat_scheme \<Rightarrow> message list \<Rightarrow> string list
   \<Rightarrow> (yielded \<times> 'a LLMGUIChat_scheme) list" where
  "token_yields a_backend self h toks =
     fst (emit_tokens (streaming_status (backend_name a_backend) (current_model self)) self []
            h toks)"

definition display_after ::
  "string \<Rightarrow> 'a LLMGUIChat_scheme \<Rightarrow> message list \<Rightarrow> string list \<Rightarrow> message list" where
  "display_after a_backend self h toks =
     snd (emit_tokens (streaming_status (backend_name a_backend) (current_model self)) self []
            h toks)"

text \<open>The text of the status after an exception that the handler catches.\<close>

definition error_text :: "exn \<Rightarrow> string" where
  "error_text e =
     (if is_RequestException e then ''Connection error: '' else ''Unexpected error: '')
     @ str_exn e"

text \<open>
  The object after \<open>start_new_session(backend, model)\<close> has created the session
  \<open>sid\<close> in the store.
\<close>

definition fresh_session ::
  "env \<Rightarrow> 'a DatabaseLLMGUIChat_scheme \<Rightarrow> string \<Rightarrow> string \<Rightarrow> uuid
   \<Rightarrow> 'a DatabaseLLMGUIChat_scheme" where
  "fresh_session ev s a_backend a_model sid =
     s\<lparr>current_session_id := Some sid,
       session_name := Some (default_session_name a_backend a_model (now_ymd_hm ev)),
       conversation_history := []\<rparr>"

text \<open>The chat displayed when the stream starts.\<close>

definition display_start :: "message list \<Rightarrow> string \<Rightarrow> message list" where
  "display_start history msg =
     history @ [user_entry msg, \<lparr>role = ''assistant'', content = []\<rparr>]"

text \<open>The messages of a session in the store.\<close>

definition session_messages :: "database \<Rightarrow> uuid \<Rightarrow> message_row list" where
  "session_messages db sid = filter (\<lambda>m. m_session_id m = sid) (chat_messages db)"

text \<open>The object after \<open>clear_conversation\<close>.\<close>

definition cleared :: "'a DatabaseLLMGUIChat_scheme \<Rightarrow> 'a DatabaseLLMGUIChat_scheme" where
  "cleared self =
     self\<lparr>current_session_id := None, session_name := None, conversation_history := []\<rparr>"

text \<open>
  \<open>db'\<close> holds every session row and every message row of \<open>db\<close>, unchanged and at
  its place, and the message rows it holds beyond them belong to no session of \<open>db\<close>.
\<close>

definition extends_store :: "database \<Rightarrow> database \<Rightarrow> bool" where
  "extends_store db db' =
     (take (length (chat_sessions db)) (chat_sessions db') = chat_sessions db
      \<and> take (length (chat_messages db)) (chat_messages db') = chat_messages db
      \<and> list_all (\<lambda>row. m_session_id row \<notin> set (map session_id (chat_sessions db)))
           (drop (length (chat_messages db)) (chat_messages db')))"

subsection \<open>Example inputs\<close>

definition example_gui :: DatabaseLLMGUIChat where
  "example_gui =
     \<lparr>conversation_history = [], show_reasoning = False, reasoning_mode = ''simple'',
      backend = ''ollama'', current_model = ''llama3.1:8b'',
      database_enabled = True, current_session_id = Some 7, session_name = Some ''demo''\<rparr>"

definition r_done :: response where
  \<open>r_done =
     \<lparr>status_code = 200, resp_text = [],
      iter_lines = [''{"response":"He"}'', ''{"response":"llo","done":false}'',
                    ''{"done":true}''],
      ending = Eof\<rparr>\<close>

definition r_drop :: response where
  \<open>r_drop =
     \<lparr>status_code = 200, resp_text = [],
      iter_lines = [''{"response":"He"}'', ''{"response":"llo","done":false}''],
      ending = Raises (Exn RequestException ''Connection broken'')\<rparr>\<close>

text \<open>A session with one exchange behind it, in memory and in the store.\<close>

definition example_gui_two :: DatabaseLLMGUIChat where
  "example_gui_two =
     example_gui\<lparr>conversation_history :=
       [user_entry ''hi'', \<lparr>role = ''assistant'', content = ''Hello''\<rparr>]\<rparr>"

definition example_db_two :: database where
  "example_db_two =
     example_db\<lparr>chat_messages :=
       [\<lparr>message_id = 50, m_session_id = 7, m_role = ''user'', m_content = ''hi'',
         message_order = 1, m_metadata = []\<rparr>,
        \<lparr>message_id = 51, m_session_id = 7, m_role = ''assistant'', m_content = ''Hello'',
         message_order = 2,
         m_metadata = assistant_metadata ''ollama'' ''llama3.1:8b'' False ''simple''\<rparr>]\<rparr>"

definition example_env :: env where
  "example_env =
     \<lparr>now_ymd_hm = ''2025-01-01 10:00'', now_hm = ''10:00'',
      session_uuid = 8, user_uuid = 100, assistant_uuid = 101, uuid4 = 9\<rparr>"

definition example_env_next :: env where
  "example_env_next =
     \<lparr>now_ymd_hm = ''2025-01-01 10:01'', now_hm = ''10:01'',
      session_uuid = 10, user_uuid = 102, assistant_uuid = 103, uuid4 = 11\<rparr>"

text \<open>The store of the example once the user message \<open>hi\<close> is saved.\<close>

definition example_db_hi :: database where
  "example_db_hi =
     example_db\<lparr>chat_messages :=
       [\<lparr>message_id = 100, m_session_id = 7, m_role = ''user'', m_content = ''hi'',
         message_order = 1, m_metadata = []\<rparr>]\<rparr>"

text \<open>The object while the first exchange of the example is streaming.\<close>

definition example_gui_mid :: DatabaseLLMGUIChat where
  "example_gui_mid = started example_gui ''hi'' ''ollama'' ''llama3.1:8b'' False ''simple''"

section \<open>Properties of the composer\<close>

lemma dict_get_reasoning_prompts:
  "dict_get reasoning_prompts m simple_prompt =
     (if m = ''detailed'' then detailed_prompt
      else if m = ''chain'' then chain_prompt
      else simple_prompt)"
  by (simp add: dict_get_def reasoning_prompts_def)

lemma copy_message: "(\<lambda>msg. \<lparr>role = role msg, content = content msg\<rparr>) = (\<lambda>msg. msg)"
  by (rule ext) simp

text \<open>
  Claim C8. For every history, user text and reasoning mode, the composed list is the
  history, entry by entry and unchanged, followed by exactly one user entry. With
  reasoning off the content of that entry is the user text itself. With reasoning on
  it is the literal template of the mode (\<open>detailed\<close>, \<open>simple\<close> or \<open>chain\<close>)
  followed by the user text, so it starts with the template and ends with the
  unchanged text. The result is a function of the history, the text and the two
  settings alone.
\<close>

theorem build_messages_compose:
  "VLLMChat_build_messages
     \<lparr>conversation_history = h, show_reasoning = False, reasoning_mode = m\<rparr> t
     = h @ [\<lparr>role = ''user'', content = t\<rparr>]
   \<and> VLLMChat_build_messages
       \<lparr>conversation_history = h, show_reasoning = True, reasoning_mode = ''simple''\<rparr> t
     = h @ [\<lparr>role = ''user'', content = simple_prompt @ t\<rparr>]
   \<and> VLLMChat_build_messages
       \<lparr>conversation_history = h, show_reasoning = True, reasoning_mode = ''detailed''\<rparr> t
     = h @ [\<lparr>role = ''user'', content = detailed_prompt @ t\<rparr>]
   \<and> VLLMChat_build_messages
       \<lparr>conversation_history = h, show_reasoning = True, reasoning_mode = ''chain''\<rparr> t
     = h @ [\<lparr>role = ''user'', content = chain_prompt @ t\<rparr>]"
  by (simp add: VLLMChat_build_messages_def dict_get_reasoning_prompts copy_message)

section \<open>Properties of the streaming clients\<close>

subsection \<open>One line of each kind\<close>

lemma obj_fieldD:
  assumes "obj_field x k = Some v"
  obtains kv where "x = Some (JObj kv)" "map_of kv k = Some v"
  using assms by (cases "(x, k)" rule: obj_field.cases) simp_all

lemma first_itemD:
  assumes "first_item x = Some v"
  obtains xs where "x = Some (JArr (v # xs))"
  using assms by (cases x rule: first_item.cases) simp_all

lemma ollama_delta_step:
  assumes "ollama_delta_frame loads l f"
  shows "ollama_step loads l = (Some f, Continue)"
proof -
  from assms have valid: "utf8_valid l"
    and resp: "obj_field (loads l) ''response'' = Some (JStr f)"
    and fin: "(case obj_field (loads l) ''done'' of None \<Rightarrow> True | Some d \<Rightarrow> \<not> truthy d)"
    by (simp_all add: ollama_delta_frame_def)
  from resp obtain kv where kv: "loads l = Some (JObj kv)"
    "map_of kv ''response'' = Some (JStr f)"
    by (rule obj_fieldD)
  with fin have "done_ctl (JObj kv) = Continue"
    by (simp add: done_ctl_def split: option.splits)
  with valid kv show ?thesis
    by (simp add: ollama_step_def decode_utf8_def)
qed

lemma ollama_terminal_step:
  assumes "ollama_terminal_frame loads l c"
  shows "ollama_step loads l = (c, BreakLoop)"
proof -
  from assms have valid: "utf8_valid l"
    and fin: "(case obj_field (loads l) ''done'' of None \<Rightarrow> False | Some d \<Rightarrow> truthy d)"
    and resp: "(case obj_field (loads l) ''response'' of
            None \<Rightarrow> c = None
          | Some v \<Rightarrow> (case c of None \<Rightarrow> False | Some t \<Rightarrow> v = JStr t))"
    by (simp_all add: ollama_terminal_frame_def)
  from fin obtain d where d: "obj_field (loads l) ''done'' = Some d" "truthy d"
    by (cases "obj_field (loads l) ''done''") simp_all
  from d(1) obtain kv where kv: "loads l = Some (JObj kv)" "map_of kv ''done'' = Some d"
    by (rule obj_fieldD)
  with d(2) have brk: "done_ctl (JObj kv) = BreakLoop"
    by (simp add: done_ctl_def)
  show ?thesis
  proof (cases "map_of kv ''response''")
    case None
    with resp kv valid brk show ?thesis
      by (simp add: ollama_step_def decode_utf8_def)
  next
    case (Some v)
    with resp kv obtain t where "c = Some t" "v = JStr t"
      by (cases c) simp_all
    with Some kv valid brk show ?thesis
      by (simp add: ollama_step_def decode_utf8_def)
  qed
qed

lemma startswith_nonempty: "startswith l ''data: '' \<Longrightarrow> l \<noteq> []"
  unfolding startswith_def by (cases l) simp_all

lemma vllm_delta_step:
  assumes "vllm_delta_frame loads l f"
  shows "vllm_step b loads l = (Some f, Continue)"
proof -
  from assms have valid: "utf8_valid l" and pre: "startswith l ''data: ''"
    and nd: "strip (drop 6 l) \<noteq> ''[DONE]''"
    and c: "obj_field
            (obj_field (first_item (obj_field (loads (drop 6 l)) ''choices'')) ''delta'')
            ''content'' = Some (JStr f)"
    by (simp_all add: vllm_delta_frame_def)
  from c obtain d where d: "obj_field (first_item (obj_field (loads (drop 6 l)) ''choices'')) ''delta'' = Some (JObj d)"
    "map_of d ''content'' = Some (JStr f)"
    by (rule obj_fieldD)
  from d(1) obtain c0 where c0: "first_item (obj_field (loads (drop 6 l)) ''choices'') = Some (JObj c0)"
    "map_of c0 ''delta'' = Some (JObj d)"
    by (rule obj_fieldD)
  from c0(1) obtain cs where cs: "obj_field (loads (drop 6 l)) ''choices'' = Some (JArr (JObj c0 # cs))"
    by (rule first_itemD)
  then obtain kv where kv: "loads (drop 6 l) = Some (JObj kv)"
    "map_of kv ''choices'' = Some (JArr (JObj c0 # cs))"
    by (rule obj_fieldD)
  have "has_choices b (JObj kv) = Inr (Some (JArr (JObj c0 # cs)))"
    using kv(2) by (simp add: has_choices_def)
  moreover have "delta_content (JArr (JObj c0 # cs)) = Inr (Some f)"
    using c0(2) d(2) by (simp add: delta_content_def)
  ultimately show ?thesis
    using valid pre nd kv(1) by (simp add: vllm_step_def decode_utf8_def)
qed

lemma sse_done_step:
  "sse_done_frame l \<Longrightarrow> vllm_step b loads l = (None, BreakLoop)"
  by (simp add: sse_done_frame_def vllm_step_def decode_utf8_def)

subsection \<open>The loop\<close>

lemma for_lines_filter:
  "for_lines step (filter (\<lambda>l. l \<noteq> []) ls) fin ai = for_lines step ls fin ai"
  by (induction ls arbitrary: ai) (auto split: prod.splits option.splits ctl.splits)

lemma for_lines_deltas:
  "list_all (\<lambda>(l, f). l \<noteq> [] \<and> step l = (Some f, Continue)) frames \<Longrightarrow>
   for_lines step (map fst frames @ rest) fin ai =
     (case for_lines step rest fin (ai @ concat (map snd frames)) of
        (ai', toks, x) \<Rightarrow> (ai', map snd frames @ toks, x))"
  by (induction frames arbitrary: ai) (auto split: prod.splits)

lemma sse_done_literal: "sse_done_frame ''data: [DONE]''"
  by (simp add: sse_done_frame_def startswith_def strip_def isspace_def whitespace_def is_cont_def)

lemma send_streaming_loop:
  assumes "status_code r = 200"
    and "for_lines step (filter (\<lambda>l. l \<noteq> []) (iter_lines r)) (ending r) [] = (ai, toks, x)"
  shows "send_streaming step (Response r) self =
     (case x of
        Raised e \<Rightarrow>
          (if kind e = KeyboardInterrupt
           then (add_assistant self (ai @ '' [Response interrupted]''),
                 bot_prompt # toks @ [interrupted_notice, ''\<newline>''],
                 Inr (ai @ '' [Response interrupted]''))
           else (self, bot_prompt # toks, Inl e))
      | _ \<Rightarrow> (add_assistant self ai, bot_prompt # toks @ [''\<newline>''], Inr ai))"
  using assms
  by (simp add: send_streaming_def for_lines_filter add_assistant_def split: loop_exit.splits)

lemma deltas_then_interrupt:
  assumes "list_all (\<lambda>(l, f). l \<noteq> [] \<and> step l = (Some f, Continue)) frames"
  shows "for_lines step (map fst frames) (Raises e) [] =
           (concat (map snd frames), map snd frames, Raised e)"
  using for_lines_deltas [OF assms, of "[]" "Raises e" "[]"] by simp

lemma deltas_then_terminal:
  assumes "list_all (\<lambda>(l, f). l \<noteq> [] \<and> step l = (Some f, Continue)) frames"
    and "terminal \<noteq> []" and "step terminal = (c, BreakLoop)"
  shows "for_lines step (map fst frames @ terminal # rest) fin [] =
           (concat (map snd frames) @ carried_text c, map snd frames @ carried_tokens c, Break)"
  using for_lines_deltas [OF assms(1), of "terminal # rest" fin "[]"] assms(2,3)
  by (cases c) (simp_all add: carried_text_def carried_tokens_def)

lemma ollama_frames:
  "list_all (\<lambda>(l, f). ollama_delta_frame loads l f) frames \<Longrightarrow>
   list_all (\<lambda>(l, f). l \<noteq> [] \<and> ollama_step loads l = (Some f, Continue)) frames"
  by (induction frames) (auto simp: ollama_delta_step ollama_delta_frame_def)

lemma vllm_delta_nonempty: "vllm_delta_frame loads l f \<Longrightarrow> l \<noteq> []"
  using startswith_nonempty [of l] by (simp add: vllm_delta_frame_def)

lemma vllm_frames:
  "list_all (\<lambda>(l, f). vllm_delta_frame loads l f) frames \<Longrightarrow>
   list_all (\<lambda>(l, f). l \<noteq> [] \<and> vllm_step b loads l = (Some f, Continue)) frames"
  by (induction frames) (auto simp: vllm_delta_step dest: vllm_delta_nonempty)

subsection \<open>Interrupt by the user\<close>

text \<open>
  Claim C10. In \<open>OllamaChat._send_streaming_message\<close> and in
  \<open>VLLMChat._send_streaming_message\<close>, when the server has answered 200, the lines
  read are K Delta frames (blank lines apart) and \<open>KeyboardInterrupt\<close> is raised
  while the next line is awaited, the method returns normally. The value returned, and
  the content of the assistant entry appended to \<open>conversation_history\<close>, is the
  concatenation of the K fragments followed by the literal
  \<open>" [Response interrupted]"\<close>.
\<close>

theorem interrupted_stream_keeps_partial_text:
  assumes "status_code r = 200"
    and "ending r = Raises (Exn KeyboardInterrupt m)"
    and "filter (\<lambda>l. l \<noteq> []) (iter_lines r) = map fst frames"
  shows "(list_all (\<lambda>(l, f). ollama_delta_frame loads l f) frames \<longrightarrow>
            OllamaChat_send_streaming_message loads (Response r) self =
              (add_assistant self (concat (map snd frames) @ '' [Response interrupted]''),
               bot_prompt # map snd frames @ [interrupted_notice, ''\<newline>''],
               Inr (concat (map snd frames) @ '' [Response interrupted]'')))
       \<and> (list_all (\<lambda>(l, f). vllm_delta_frame loads l f) frames \<longrightarrow>
            VLLMChat_send_streaming_message loads (Response r) self =
              (add_assistant self (concat (map snd frames) @ '' [Response interrupted]''),
               bot_prompt # map snd frames @ [interrupted_notice, ''\<newline>''],
               Inr (concat (map snd frames) @ '' [Response interrupted]'')))"
proof (intro conjI impI)
  assume "list_all (\<lambda>(l, f). ollama_delta_frame loads l f) frames"
  then have "for_lines (ollama_step loads) (map fst frames) (Raises (Exn KeyboardInterrupt m)) []
      = (concat (map snd frames), map snd frames, Raised (Exn KeyboardInterrupt m))"
    by (intro deltas_then_interrupt ollama_frames)
  with assms show "OllamaChat_send_streaming_message loads (Response r) self =
              (add_assistant self (concat (map snd frames) @ '' [Response interrupted]''),
               bot_prompt # map snd frames @ [interrupted_notice, ''\<newline>''],
               Inr (concat (map snd frames) @ '' [Response interrupted]''))"
    unfolding OllamaChat_send_streaming_message_def
    by (subst send_streaming_loop [where ai = "concat (map snd frames)" and toks = "map snd frames"
          and x = "Raised (Exn KeyboardInterrupt m)"]) simp_all
next
  assume "list_all (\<lambda>(l, f). vllm_delta_frame loads l f) frames"
  then have "for_lines (vllm_step True loads) (map fst frames) (Raises (Exn KeyboardInterrupt m)) []
      = (concat (map snd frames), map snd frames, Raised (Exn KeyboardInterrupt m))"
    by (intro deltas_then_interrupt vllm_frames)
  with assms show "VLLMChat_send_streaming_message loads (Response r) self =
              (add_assistant self (concat (map snd frames) @ '' [Response interrupted]''),
               bot_prompt # map snd frames @ [interrupted_notice, ''\<newline>''],
               Inr (concat (map snd frames) @ '' [Response interrupted]''))"
    unfolding VLLMChat_send_streaming_message_def
    by (subst send_streaming_loop [where ai = "concat (map snd frames)" and toks = "map snd frames"
          and x = "Raised (Exn KeyboardInterrupt m)"]) simp_all
qed

text \<open>The example frames are frames of their kinds.\<close>

lemma example_ollama_frames:
  \<open>ollama_delta_frame example_loads ''{"response":"He"}'' ''He''\<close>
  \<open>ollama_delta_frame example_loads ''{"response":"llo","done":false}'' ''llo''\<close>
  \<open>ollama_terminal_frame example_loads ''{"done":true}'' None\<close>
  \<open>ollama_terminal_frame example_loads ''{"response":"!","done":true}'' (Some ''!'')\<close>
  by (simp_all add: ollama_delta_frame_def ollama_terminal_frame_def example_loads_def)

lemma example_vllm_frames:
  \<open>vllm_delta_frame example_loads ''data: {"choices":[{"delta":{"content":"He"}}]}'' ''He''\<close>
  \<open>vllm_delta_frame example_loads ''data: {"choices":[{"delta":{"content":"llo"}}]}'' ''llo''\<close>
  by (simp_all add: vllm_delta_frame_def example_loads_def startswith_def strip_def
      is_cont_def isspace_def whitespace_def)

text \<open>
  Claim C10 at two fragments, \<open>He\<close> and \<open>llo\<close>, for each of the two clients.
\<close>

theorem interrupted_stream_witness:
  \<open>OllamaChat_send_streaming_message example_loads
     (Response \<lparr>status_code = 200, resp_text = [],
        iter_lines = [''{"response":"He"}'', ''{"response":"llo","done":false}''],
        ending = Raises (Exn KeyboardInterrupt [])\<rparr>)
     example_chat
   = (add_assistant example_chat ''Hello [Response interrupted]'',
      [bot_prompt, ''He'', ''llo'', interrupted_notice, ''\<newline>''],
      Inr ''Hello [Response interrupted]'')
   \<and> VLLMChat_send_streaming_message example_loads
     (Response \<lparr>status_code = 200, resp_text = [],
        iter_lines = [''data: {"choices":[{"delta":{"content":"He"}}]}'', [],
                      ''data: {"choices":[{"delta":{"content":"llo"}}]}'', []],
        ending = Raises (Exn KeyboardInterrupt [])\<rparr>)
     example_chat
   = (add_assistant example_chat ''Hello [Response interrupted]'',
      [bot_prompt, ''He'', ''llo'', interrupted_notice, ''\<newline>''],
      Inr ''Hello [Response interrupted]'')\<close>
proof
  let ?r = \<open>\<lparr>status_code = 200, resp_text = [],
        iter_lines = [''{"response":"He"}'', ''{"response":"llo","done":false}''],
        ending = Raises (Exn KeyboardInterrupt [])\<rparr>\<close>
  let ?frames = \<open>[(''{"response":"He"}'', ''He''), (''{"response":"llo","done":false}'', ''llo'')]\<close>
  have "list_all (\<lambda>(l, f). ollama_delta_frame example_loads l f) ?frames"
    by (simp add: example_ollama_frames)
  with interrupted_stream_keeps_partial_text [of ?r "[]" ?frames example_loads example_chat]
  show \<open>OllamaChat_send_streaming_message example_loads (Response ?r) example_chat
   = (add_assistant example_chat ''Hello [Response interrupted]'',
      [bot_prompt, ''He'', ''llo'', interrupted_notice, ''\<newline>''],
      Inr ''Hello [Response interrupted]'')\<close>
    by simp
next
  let ?r = \<open>\<lparr>status_code = 200, resp_text = [],
        iter_lines = [''data: {"choices":[{"delta":{"content":"He"}}]}'', [],
                      ''data: {"choices":[{"delta":{"content":"llo"}}]}'', []],
        ending = Raises (Exn KeyboardInterrupt [])\<rparr>\<close>
  let ?frames = \<open>[(''data: {"choices":[{"delta":{"content":"He"}}]}'', ''He''),
                  (''data: {"choices":[{"delta":{"content":"llo"}}]}'', ''llo'')]\<close>
  have "list_all (\<lambda>(l, f). vllm_delta_frame example_loads l f) ?frames"
    by (simp add: example_vllm_frames)
  with interrupted_stream_keeps_partial_text [of ?r "[]" ?frames example_loads example_chat]
  show \<open>VLLMChat_send_streaming_message example_loads (Response ?r) example_chat
   = (add_assistant example_chat ''Hello [Response interrupted]'',
      [bot_prompt, ''He'', ''llo'', interrupted_notice, ''\<newline>''],
      Inr ''Hello [Response interrupted]'')\<close>
    by simp
qed

subsection \<open>A well-formed stream\<close>

text \<open>
  Claim C6, as amended. The server has answered 200 and the lines read (blank lines
  apart) are N Delta frames, one terminal frame and anything behind it. Then each
  client prints the N fragments in the order of the lines and stops at the terminal
  frame: nothing behind it is printed, whatever follows and however the stream ends.
  In the OpenAI-compatible client the response is the concatenation of the N
  fragments. In the raw-generate client a terminal frame (\<open>done\<close> true) that itself
  carries text under \<open>response\<close> adds that text as one more fragment, printed last
  and appended to the response; without it the response is the concatenation of the N
  fragments.
\<close>

theorem well_formed_stream_decoded:
  assumes "status_code r = 200"
    and "filter (\<lambda>l. l \<noteq> []) (iter_lines r) = map fst frames @ terminal # rest"
  shows "(list_all (\<lambda>(l, f). ollama_delta_frame loads l f) frames
          \<and> ollama_terminal_frame loads terminal carried \<longrightarrow>
            OllamaChat_send_streaming_message loads (Response r) self =
              (add_assistant self (concat (map snd frames) @ carried_text carried),
               bot_prompt # map snd frames @ carried_tokens carried @ [''\<newline>''],
               Inr (concat (map snd frames) @ carried_text carried)))
       \<and> (list_all (\<lambda>(l, f). vllm_delta_frame loads l f) frames
          \<and> sse_done_frame terminal \<longrightarrow>
            VLLMChat_send_streaming_message loads (Response r) self =
              (add_assistant self (concat (map snd frames)),
               bot_prompt # map snd frames @ [''\<newline>''],
               Inr (concat (map snd frames))))"
proof (intro conjI impI)
  assume a: "list_all (\<lambda>(l, f). ollama_delta_frame loads l f) frames
          \<and> ollama_terminal_frame loads terminal carried"
  then have "terminal \<noteq> []" by (simp add: ollama_terminal_frame_def)
  with a have "for_lines (ollama_step loads) (map fst frames @ terminal # rest) (ending r) []
      = (concat (map snd frames) @ carried_text carried,
         map snd frames @ carried_tokens carried, Break)"
    by (intro deltas_then_terminal ollama_frames ollama_terminal_step) simp_all
  with assms show "OllamaChat_send_streaming_message loads (Response r) self =
              (add_assistant self (concat (map snd frames) @ carried_text carried),
               bot_prompt # map snd frames @ carried_tokens carried @ [''\<newline>''],
               Inr (concat (map snd frames) @ carried_text carried))"
    unfolding OllamaChat_send_streaming_message_def
    by (subst send_streaming_loop [where ai = "concat (map snd frames) @ carried_text carried"
          and toks = "map snd frames @ carried_tokens carried" and x = Break]) simp_all
next
  assume a: "list_all (\<lambda>(l, f). vllm_delta_frame loads l f) frames \<and> sse_done_frame terminal"
  then have "terminal \<noteq> []"
    using startswith_nonempty [of terminal] by (simp add: sse_done_frame_def)
  with a have "for_lines (vllm_step True loads) (map fst frames @ terminal # rest) (ending r) []
      = (concat (map snd frames) @ carried_text None,
         map snd frames @ carried_tokens None, Break)"
    by (intro deltas_then_terminal vllm_frames sse_done_step) simp_all
  with assms show "VLLMChat_send_streaming_message loads (Response r) self =
              (add_assistant self (concat (map snd frames)),
               bot_prompt # map snd frames @ [''\<newline>''],
               Inr (concat (map snd frames)))"
    unfolding VLLMChat_send_streaming_message_def
    by (subst send_streaming_loop [where ai = "concat (map snd frames)"
          and toks = "map snd frames" and x = Break])
       (simp_all add: carried_text_def carried_tokens_def)
qed

text \<open>What the loop bodies do with the example lines.\<close>

lemma example_ollama_steps:
  \<open>ollama_step example_loads ''{"response":"He"}'' = (Some ''He'', Continue)\<close>
  \<open>ollama_step example_loads ''{"response":"llo","done":false}'' = (Some ''llo'', Continue)\<close>
  \<open>ollama_step example_loads ''{"done":true}'' = (None, BreakLoop)\<close>
  \<open>ollama_step example_loads ''{"response":"!","done":true}'' = (Some ''!'', BreakLoop)\<close>
  \<open>ollama_step example_loads [CHR 0xFF] = (None, Raise (Exn UnicodeDecodeError ''utf-8 codec can't decode byte''))\<close>
  \<open>ollama_step example_loads ''garbage'' = (None, Continue)\<close>
  by (simp_all add: ollama_delta_step ollama_terminal_step example_ollama_frames)
     (simp_all add: ollama_step_def decode_utf8_def example_loads_def)

lemma example_vllm_steps:
  \<open>vllm_step b example_loads ''data: {"choices":[{"delta":{"content":"He"}}]}'' = (Some ''He'', Continue)\<close>
  \<open>vllm_step b example_loads ''data: {"choices":[{"delta":{"content":"llo"}}]}'' = (Some ''llo'', Continue)\<close>
  \<open>vllm_step b example_loads ''data: [DONE]'' = (None, BreakLoop)\<close>
  \<open>vllm_step b example_loads [CHR 0xFF] = (None, Raise (Exn UnicodeDecodeError ''utf-8 codec can't decode byte''))\<close>
  \<open>vllm_step b example_loads '': keep-alive'' = (None, Continue)\<close>
  by (simp_all add: vllm_delta_step sse_done_step example_vllm_frames sse_done_literal)
     (simp_all add: vllm_step_def decode_utf8_def startswith_def)

text \<open>
  Claim C6 as stated fails in the raw-generate client: after one Delta frame \<open>He\<close>,
  the terminal frame \<open>{"response":"!","done":true}\<close> gives two printed fragments and
  the response \<open>He!\<close>, not \<open>He\<close>.
\<close>

theorem terminal_frame_fragment_counterexample:
  \<open>ollama_delta_frame example_loads ''{"response":"He"}'' ''He''
   \<and> ollama_terminal_frame example_loads ''{"response":"!","done":true}'' (Some ''!'')
   \<and> OllamaChat_send_streaming_message example_loads
        (Response \<lparr>status_code = 200, resp_text = [],
           iter_lines = [''{"response":"He"}'', ''{"response":"!","done":true}''],
           ending = Eof\<rparr>)
        example_chat
      = (add_assistant example_chat ''He!'', [bot_prompt, ''He'', ''!'', ''\<newline>''],
         Inr ''He!'')
   \<and> snd (snd (OllamaChat_send_streaming_message example_loads
        (Response \<lparr>status_code = 200, resp_text = [],
           iter_lines = [''{"response":"He"}'', ''{"response":"!","done":true}''],
           ending = Eof\<rparr>)
        example_chat))
      \<noteq> Inr (concat [''He''])\<close>
  by (simp add: example_ollama_frames OllamaChat_send_streaming_message_def send_streaming_def
      example_ollama_steps add_assistant_def)

text \<open>
  Claim C6 as amended, at the fragments \<open>He\<close> and \<open>llo\<close>: a raw-generate stream
  with one more line behind the terminal frame, and an OpenAI-compatible stream with
  the blank lines that separate its frames.
\<close>

theorem well_formed_stream_witness:
  \<open>OllamaChat_send_streaming_message example_loads
     (Response \<lparr>status_code = 200, resp_text = [],
        iter_lines = [''{"response":"He"}'', ''{"response":"llo","done":false}'',
                      ''{"done":true}'', ''{"response":"He"}''],
        ending = Eof\<rparr>)
     example_chat
   = (add_assistant example_chat ''Hello'', [bot_prompt, ''He'', ''llo'', ''\<newline>''],
      Inr ''Hello'')
   \<and> VLLMChat_send_streaming_message example_loads
     (Response \<lparr>status_code = 200, resp_text = [],
        iter_lines = [''data: {"choices":[{"delta":{"content":"He"}}]}'', [],
                      ''data: {"choices":[{"delta":{"content":"llo"}}]}'', [],
                      ''data: [DONE]'', []],
        ending = Eof\<rparr>)
     example_chat
   = (add_assistant example_chat ''Hello'', [bot_prompt, ''He'', ''llo'', ''\<newline>''],
      Inr ''Hello'')\<close>
proof
  let ?r = \<open>\<lparr>status_code = 200, resp_text = [],
        iter_lines = [''{"response":"He"}'', ''{"response":"llo","done":false}'',
                      ''{"done":true}'', ''{"response":"He"}''],
        ending = Eof\<rparr>\<close>
  let ?frames = \<open>[(''{"response":"He"}'', ''He''), (''{"response":"llo","done":false}'', ''llo'')]\<close>
  have "list_all (\<lambda>(l, f). ollama_delta_frame example_loads l f) ?frames
        \<and> ollama_terminal_frame example_loads ''{\"done\":true}'' None"
    by (simp add: example_ollama_frames)
  with well_formed_stream_decoded [of ?r ?frames \<open>''{"done":true}''\<close> \<open>[''{"response":"He"}'']\<close>
         example_loads None example_chat]
  show \<open>OllamaChat_send_streaming_message example_loads (Response ?r) example_chat
   = (add_assistant example_chat ''Hello'', [bot_prompt, ''He'', ''llo'', ''\<newline>''],
      Inr ''Hello'')\<close>
    by (simp add: carried_text_def carried_tokens_def)
next
  let ?r = \<open>\<lparr>status_code = 200, resp_text = [],
        iter_lines = [''data: {"choices":[{"delta":{"content":"He"}}]}'', [],
                      ''data: {"choices":[{"delta":{"content":"llo"}}]}'', [],
                      ''data: [DONE]'', []],
        ending = Eof\<rparr>\<close>
  let ?frames = \<open>[(''data: {"choices":[{"delta":{"content":"He"}}]}'', ''He''),
                  (''data: {"choices":[{"delta":{"content":"llo"}}]}'', ''llo'')]\<close>
  have "list_all (\<lambda>(l, f). vllm_delta_frame example_loads l f) ?frames
        \<and> sse_done_frame ''data: [DONE]''"
    by (simp add: example_vllm_frames sse_done_literal)
  with well_formed_stream_decoded [of ?r ?frames \<open>''data: [DONE]''\<close> \<open>[]\<close>
         example_loads None example_chat]
  show \<open>VLLMChat_send_streaming_message example_loads (Response ?r) example_chat
   = (add_assistant example_chat ''Hello'', [bot_prompt, ''He'', ''llo'', ''\<newline>''],
      Inr ''Hello'')\<close>
    by simp
qed

subsection \<open>Malformed lines\<close>

text \<open>
  Claim C7 at a line that is not valid UTF-8, the single byte \<open>0xFF\<close>, between two
  Delta frames. \<open>line.decode('utf-8')\<close> raises \<open>UnicodeDecodeError\<close>, which
  \<open>except json.JSONDecodeError\<close> does not catch: the exception leaves the method
  after the first fragment, nothing is appended to the history, and the result is not
  that of the same stream without the line, which is \<open>Hello\<close>. The same holds in both
  clients.
\<close>

theorem undecodable_line_not_skipped:
  \<open>OllamaChat_send_streaming_message example_loads
     (Response \<lparr>status_code = 200, resp_text = [],
        iter_lines = [''{"response":"He"}'', [CHR 0xFF], ''{"response":"llo","done":false}'',
                      ''{"done":true}''],
        ending = Eof\<rparr>)
     example_chat
   = (example_chat, [bot_prompt, ''He''],
      Inl (Exn UnicodeDecodeError ''utf-8 codec can't decode byte''))
   \<and> OllamaChat_send_streaming_message example_loads
     (Response \<lparr>status_code = 200, resp_text = [],
        iter_lines = [''{"response":"He"}'', ''{"response":"llo","done":false}'',
                      ''{"done":true}''],
        ending = Eof\<rparr>)
     example_chat
   = (add_assistant example_chat ''Hello'', [bot_prompt, ''He'', ''llo'', ''\<newline>''],
      Inr ''Hello'')
   \<and> VLLMChat_send_streaming_message example_loads
     (Response \<lparr>status_code = 200, resp_text = [],
        iter_lines = [''data: {"choices":[{"delta":{"content":"He"}}]}'', [CHR 0xFF],
                      ''data: {"choices":[{"delta":{"content":"llo"}}]}'', ''data: [DONE]''],
        ending = Eof\<rparr>)
     example_chat
   = (example_chat, [bot_prompt, ''He''],
      Inl (Exn UnicodeDecodeError ''utf-8 codec can't decode byte''))
   \<and> VLLMChat_send_streaming_message example_loads
     (Response \<lparr>status_code = 200, resp_text = [],
        iter_lines = [''data: {"choices":[{"delta":{"content":"He"}}]}'',
                      ''data: {"choices":[{"delta":{"content":"llo"}}]}'', ''data: [DONE]''],
        ending = Eof\<rparr>)
     example_chat
   = (add_assistant example_chat ''Hello'', [bot_prompt, ''He'', ''llo'', ''\<newline>''],
      Inr ''Hello'')\<close>
  by (simp add: OllamaChat_send_streaming_message_def VLLMChat_send_streaming_message_def
      send_streaming_def example_ollama_steps example_vllm_steps add_assistant_def)

text \<open>
  What the clients do skip: every line of text described by \<^const>\<open>ollama_skipped\<close>
  and \<^const>\<open>vllm_skipped\<close> can be removed from a stream without any change to the
  result of the loop.
\<close>

lemma for_lines_skip:
  assumes "list_all (\<lambda>l. if P l then step l = (None, Continue) else True) ls"
  shows "for_lines step (filter (\<lambda>l. \<not> P l) ls) fin ai = for_lines step ls fin ai"
  using assms
  by (induction ls arbitrary: ai) (auto split: prod.splits option.splits ctl.splits)

lemma is_objD:
  assumes "is_obj x"
  obtains kv where "x = Some (JObj kv)"
  using assms by (cases x rule: is_obj.cases) simp_all

lemma ollama_skipped_step:
  assumes "ollama_skipped loads l"
  shows "ollama_step loads l = (None, Continue)"
proof (cases "loads l")
  case None
  with assms show ?thesis
    by (simp add: ollama_skipped_def ollama_step_def decode_utf8_def)
next
  case (Some chunk)
  with assms obtain kv where kv: "loads l = Some (JObj kv)"
    by (auto simp: ollama_skipped_def elim: is_objD)
  with assms have "utf8_valid l" "map_of kv ''response'' = None"
    "(case map_of kv ''done'' of None \<Rightarrow> True | Some d \<Rightarrow> \<not> truthy d)"
    by (simp_all add: ollama_skipped_def)
  with kv show ?thesis
    by (simp add: ollama_step_def decode_utf8_def done_ctl_def split: option.splits)
qed

lemma delta_without_content:
  assumes "case map_of c0 ''delta'' of
             None \<Rightarrow> True
           | Some delta \<Rightarrow> is_obj (Some delta) \<and> obj_field (Some delta) ''content'' = None"
  shows "delta_content (JArr (JObj c0 # cs)) = Inr None"
proof (cases "map_of c0 ''delta''")
  case None
  then show ?thesis by (simp add: delta_content_def)
next
  case (Some delta)
  with assms obtain d where "delta = JObj d" "map_of d ''content'' = None"
    by (auto elim: is_objD)
  with Some show ?thesis by (simp add: delta_content_def)
qed

lemma vllm_skipped_step:
  assumes "vllm_skipped loads l"
  shows "vllm_step b loads l = (None, Continue)"
proof (cases "startswith l ''data: ''")
  case False
  with assms show ?thesis
    by (simp add: vllm_skipped_def vllm_step_def decode_utf8_def)
next
  case True
  with assms have valid: "utf8_valid l" and nd: "strip (drop 6 l) \<noteq> ''[DONE]''"
    and body: "loads (drop 6 l) = None
              \<or> (is_obj (loads (drop 6 l))
                 \<and> (case obj_field (loads (drop 6 l)) ''choices'' of
                      None \<Rightarrow> True
                    | Some choices \<Rightarrow>
                        choices = JArr []
                        \<or> (is_obj (first_item (Some choices))
                           \<and> (case obj_field (first_item (Some choices)) ''delta'' of
                                None \<Rightarrow> True
                              | Some delta \<Rightarrow>
                                  is_obj (Some delta)
                                  \<and> obj_field (Some delta) ''content'' = None))))"
    by (simp_all add: vllm_skipped_def)
  show ?thesis
  proof (cases "loads (drop 6 l)")
    case None
    with True valid nd show ?thesis
      by (simp add: vllm_step_def decode_utf8_def)
  next
    case (Some chunk)
    with body obtain kv where kv: "loads (drop 6 l) = Some (JObj kv)"
      by (auto elim: is_objD)
    have "has_choices b (JObj kv) = Inr None
          \<or> (\<exists>choices. has_choices b (JObj kv) = Inr (Some choices)
                \<and> delta_content choices = Inr None)"
    proof (cases "map_of kv ''choices''")
      case None
      then show ?thesis by (simp add: has_choices_def)
    next
      case ch: (Some choices)
      with body kv have alt: "choices = JArr []
            \<or> (is_obj (first_item (Some choices))
               \<and> (case obj_field (first_item (Some choices)) ''delta'' of
                    None \<Rightarrow> True
                  | Some delta \<Rightarrow>
                      is_obj (Some delta) \<and> obj_field (Some delta) ''content'' = None))"
        by simp
      show ?thesis
      proof (cases "choices = JArr []")
        case True
        with ch show ?thesis by (simp add: has_choices_def)
      next
        case False
        with alt have o: "is_obj (first_item (Some choices))"
          and dl: "(case obj_field (first_item (Some choices)) ''delta'' of
                    None \<Rightarrow> True
                  | Some delta \<Rightarrow>
                      is_obj (Some delta) \<and> obj_field (Some delta) ''content'' = None)"
          by simp_all
        from o obtain c0 where "first_item (Some choices) = Some (JObj c0)"
          by (rule is_objD)
        then obtain cs where c: "choices = JArr (JObj c0 # cs)"
          by (auto elim: first_itemD)
        with dl have "delta_content choices = Inr None"
          by (simp add: delta_without_content)
        moreover from ch c have "has_choices b (JObj kv) = Inr (Some choices)"
          by (simp add: has_choices_def)
        ultimately show ?thesis by simp
      qed
    qed
    with True valid nd kv show ?thesis
      by (auto simp: vllm_step_def decode_utf8_def)
  qed
qed

lemma malformed_lines_skipped:
  "for_lines (ollama_step loads) (filter (\<lambda>l. \<not> ollama_skipped loads l) ls) fin ai
     = for_lines (ollama_step loads) ls fin ai"
  "for_lines (vllm_step b loads) (filter (\<lambda>l. \<not> vllm_skipped loads l) ls) fin ai
     = for_lines (vllm_step b loads) ls fin ai"
  by (rule for_lines_skip, induction ls, simp_all add: ollama_skipped_step vllm_skipped_step)+

section \<open>Properties of the store\<close>



lemma session_orders_append:
  "session_orders (db\<lparr>chat_messages := chat_messages db @ [m]\<rparr>) sid =
     session_orders db sid @ (if m_session_id m = sid then [message_order m] else [])"
  by (simp add: session_orders_def)

lemma add_message_orders:
  assumes "add_message db u sid' r c md = Inr (db', mid)"
  shows "session_orders db' sid =
     session_orders db sid @ (if sid' = sid then [next_message_order db sid'] else [])"
  using assms
  by (auto simp: add_message_def Let_def session_orders_append split: if_splits)




lemma other_session_keeps_next_order:
  assumes "add_message db u sid' r c md = Inr (db', mid)" and "sid' \<noteq> sid"
  shows "next_message_order db' sid = next_message_order db sid"
  using assms by (simp add: next_message_order_def add_message_orders)



section \<open>Properties of the web client\<close>

subsection \<open>The parent's generator, by the outcome of the exchange\<close>

lemma parent_blank:
  "strip msg = [] \<Longrightarrow>
   LLMGUIChat_send_message_stream loads post self msg history b m r mode
     = ([(([], history, please_enter), self)], self, None)"
  by (simp add: LLMGUIChat_send_message_stream_def)

lemma parent_dispatch:
  "strip msg \<noteq> [] \<Longrightarrow>
   LLMGUIChat_send_message_stream loads post self msg history b m r mode =
     (case stream_backend (backend_name b) (backend_step loads b) post
             (started self msg b m r mode) (display_start history msg) of
        (ys, self3, h, raised) \<Rightarrow>
          (case raised of
             None \<Rightarrow> (ys, self3, None)
           | Some e \<Rightarrow>
               (ys @ error_yield e self3 h, self3, if is_Exception e then None else Some e)))"
  by (simp add: LLMGUIChat_send_message_stream_def Let_def started_def with_settings_def
      backend_name_def backend_step_def display_start_def)

lemma emit_tokens_pair:
  "emit_tokens (streaming_status (backend_name b) (current_model self)) self [] h toks
     = (token_yields b self h toks, display_after b self h toks)"
  by (simp add: token_yields_def display_after_def)

lemma stream_completed:
  assumes "exchange loads b post = Completed ai toks"
  shows "stream_backend (backend_name b) (backend_step loads b) post self h =
     (token_yields b self h toks
        @ [(([], display_after b self h toks,
             completed_status (backend_name b) (current_model self)),
            add_assistant self ai)],
      add_assistant self ai, display_after b self h toks, None)"
proof (cases post)
  case (PostRaises e)
  with assms show ?thesis by (simp add: exchange_def)
next
  case (Response r)
  with assms have ok: "status_code r = 200"
    by (simp add: exchange_def split: if_splits)
  obtain ai' toks' x where loop:
    "for_lines (backend_step loads b) (iter_lines r) (ending r) [] = (ai', toks', x)"
    by (cases "for_lines (backend_step loads b) (iter_lines r) (ending r) []") auto
  with assms Response ok have "ai' = ai" "toks' = toks" "x = Exhausted \<or> x = Break"
    by (cases x; simp add: exchange_def)+
  with Response ok loop show ?thesis
    by (auto simp: stream_backend_def emit_tokens_pair Let_def)
qed

lemma stream_interrupted:
  assumes "exchange loads b post = Interrupted ai toks e"
  shows "stream_backend (backend_name b) (backend_step loads b) post self h =
     (token_yields b self h toks, self, display_after b self h toks, Some e)"
proof (cases post)
  case (PostRaises e)
  with assms show ?thesis by (simp add: exchange_def)
next
  case (Response r)
  with assms have ok: "status_code r = 200"
    by (simp add: exchange_def split: if_splits)
  obtain ai' toks' x where loop:
    "for_lines (backend_step loads b) (iter_lines r) (ending r) [] = (ai', toks', x)"
    by (cases "for_lines (backend_step loads b) (iter_lines r) (ending r) []") auto
  with assms Response ok have "ai' = ai" "toks' = toks" "x = Raised e"
    by (cases x; simp add: exchange_def)+
  with Response ok loop show ?thesis
    by (simp add: stream_backend_def emit_tokens_pair)
qed

lemma stream_unreachable:
  assumes "exchange loads b post = Unreachable e"
  shows "stream_backend (backend_name b) (backend_step loads b) post self h =
     ([], self, h, Some e)"
  using assms
  by (cases post)
     (auto simp: exchange_def stream_backend_def split: if_splits prod.splits loop_exit.splits)

lemma stream_rejected:
  assumes "exchange loads b post = Rejected r"
  shows "stream_backend (backend_name b) (backend_step loads b) post self h =
     ([(([], set_last_content h (cross @ http_error r), http_error r), self)], self,
      set_last_content h (cross @ http_error r), None)"
  using assms
  by (cases post)
     (auto simp: exchange_def stream_backend_def Let_def
        split: if_splits prod.splits loop_exit.splits)

lemma started_fields [simp]:
  "current_model (started self msg b m r mode) = m"
  "backend (started self msg b m r mode) = b"
  "conversation_history (started self msg b m r mode) = conversation_history self @ [user_entry msg]"
  by (simp_all add: started_def with_settings_def)

lemma parent_completed:
  assumes "strip msg \<noteq> []" and "exchange loads b post = Completed ai toks"
  shows "LLMGUIChat_send_message_stream loads post self msg history b m r mode =
     (token_yields b (started self msg b m r mode) (display_start history msg) toks
        @ [(([], display_after b (started self msg b m r mode) (display_start history msg) toks,
             completed_status (backend_name b) m),
            add_assistant (started self msg b m r mode) ai)],
      add_assistant (started self msg b m r mode) ai, None)"
  using assms by (simp add: parent_dispatch stream_completed)

lemma error_yield_Exception:
  "is_Exception e \<Longrightarrow>
   error_yield e self h = [(([], set_last_content h (cross @ error_text e), error_text e), self)]"
  by (simp add: error_yield_def error_text_def Let_def)

lemma parent_interrupted:
  assumes "strip msg \<noteq> []" and "exchange loads b post = Interrupted ai toks e"
    and "is_Exception e"
  shows "LLMGUIChat_send_message_stream loads post self msg history b m r mode =
     (token_yields b (started self msg b m r mode) (display_start history msg) toks
        @ [(([], set_last_content
                   (display_after b (started self msg b m r mode) (display_start history msg) toks)
                   (cross @ error_text e),
             error_text e),
            started self msg b m r mode)],
      started self msg b m r mode, None)"
  using assms by (simp add: parent_dispatch stream_interrupted error_yield_Exception)

lemma parent_unreachable:
  assumes "strip msg \<noteq> []" and "exchange loads b post = Unreachable e"
    and "is_Exception e"
  shows "LLMGUIChat_send_message_stream loads post self msg history b m r mode =
     ([(([], set_last_content (display_start history msg) (cross @ error_text e), error_text e),
        started self msg b m r mode)],
      started self msg b m r mode, None)"
  using assms by (simp add: parent_dispatch stream_unreachable error_yield_Exception)

lemma parent_rejected:
  assumes "strip msg \<noteq> []" and "exchange loads b post = Rejected resp"
  shows "LLMGUIChat_send_message_stream loads post self msg history b m r mode =
     ([(([], set_last_content (display_start history msg) (cross @ http_error resp),
         http_error resp),
        started self msg b m r mode)],
      started self msg b m r mode, None)"
  using assms by (simp add: parent_dispatch stream_rejected)

lemma store_fields [simp]:
  "database_enabled (started s msg b m r mode) = database_enabled s"
  "current_session_id (started s msg b m r mode) = current_session_id s"
  "database_enabled (add_assistant s ai) = database_enabled s"
  "current_session_id (add_assistant s ai) = current_session_id s"
  "database_enabled (with_settings s b m r mode) = database_enabled s"
  "current_session_id (with_settings s b m r mode) = current_session_id s"
  by (simp_all add: started_def with_settings_def add_assistant_def)

lemma stream_backend_keeps_session:
  assumes "stream_backend name step post s h = (ys, s', h', raised)"
  shows "current_session_id s' = current_session_id s \<and> database_enabled s' = database_enabled s"
  using assms
  by (auto simp: stream_backend_def Let_def add_assistant_def
      split: post_result.splits if_splits prod.splits loop_exit.splits)

lemma parent_keeps_session:
  assumes "LLMGUIChat_send_message_stream loads post s msg history b m r mode = (ys, s3, raised)"
  shows "current_session_id s3 = current_session_id s \<and> database_enabled s3 = database_enabled s"
proof (cases "strip msg = []")
  case True
  with assms show ?thesis by (simp add: parent_blank)
next
  case False
  obtain ys' s' h' raised' where sb:
    "stream_backend (backend_name b) (backend_step loads b) post
       (started s msg b m r mode) (display_start history msg) = (ys', s', h', raised')"
    by (rule prod_cases4)
  from stream_backend_keeps_session [OF sb]
  have "current_session_id s' = current_session_id s \<and> database_enabled s' = database_enabled s"
    by simp
  moreover from assms False sb have "s3 = s'"
    by (auto simp: parent_dispatch split: option.splits)
  ultimately show ?thesis by simp
qed

subsection \<open>The session and the store\<close>

lemma add_message_to_db_self:
  "database_enabled s' = database_enabled s \<Longrightarrow> current_session_id s' = current_session_id s \<Longrightarrow>
   add_message_to_db u s' db ro c md = add_message_to_db u s db ro c md"
  by (simp add: add_message_to_db_def)

lemma save_after_completed:
  "save_last_assistant ev (add_assistant s ai) db b m r mode =
     add_message_to_db (assistant_uuid ev) s db ''assistant'' ai (assistant_metadata b m r mode)"
  by (simp add: save_last_assistant_def add_assistant_def add_message_to_db_def)

lemma save_after_user:
  "save_last_assistant ev (started s msg b m r mode) db b' m' r' mode' = db"
  by (simp add: save_last_assistant_def user_entry_def)

lemma ensure_session_existing:
  "current_session_id s = Some sid \<Longrightarrow> ensure_session ev s db b m = Inr (s, db)"
  by (simp add: ensure_session_def)

lemma ensure_session_created:
  assumes "current_session_id s = None" and "database_enabled s"
    and "create_session db (session_uuid ev) (now_ymd_hm ev) b m None = Inr (db1, sid)"
  shows "ensure_session ev s db b m = Inr (fresh_session ev s b m sid, db1)"
  using assms by (simp add: ensure_session_def start_new_session_def fresh_session_def)

lemma ensure_session_failed:
  assumes "current_session_id s = None" and "database_enabled s"
    and "create_session db (session_uuid ev) (now_ymd_hm ev) b m None = Inl e"
  shows "ensure_session ev s db b m = Inl e"
  using assms by (simp add: ensure_session_def start_new_session_def)

lemma create_session_row:
  assumes "create_session db u now b m None = Inr (db1, sid)"
  shows "sid = u" and "u \<notin> set (map session_id (chat_sessions db))"
    and "db1 = db\<lparr>chat_sessions := chat_sessions db
                   @ [\<lparr>session_id = u, s_session_name = default_session_name b m now,
                       s_backend = b, s_model = m, s_metadata = []\<rparr>]\<rparr>"
  using assms by (auto simp: create_session_def Let_def split: if_splits)

lemma add_message_row:
  assumes "add_message db u sid ro c md = Inr (db1, mid)"
  shows "db1 = db\<lparr>chat_messages := chat_messages db
                   @ [\<lparr>message_id = u, m_session_id = sid, m_role = ro, m_content = c,
                       message_order = next_message_order db sid, m_metadata = md\<rparr>]\<rparr>"
  using assms by (auto simp: add_message_def Let_def split: if_splits)

lemma add_message_to_db_cases:
  "add_message_to_db u s db ro c md = db
   \<or> (\<exists>sid. database_enabled s \<and> current_session_id s = Some sid
         \<and> add_message_to_db u s db ro c md =
             db\<lparr>chat_messages := chat_messages db
                   @ [\<lparr>message_id = u, m_session_id = sid, m_role = ro, m_content = c,
                       message_order = next_message_order db sid, m_metadata = md\<rparr>]\<rparr>)"
proof (cases "database_enabled s")
  case False
  then show ?thesis by (simp add: add_message_to_db_def)
next
  case True
  show ?thesis
  proof (cases "current_session_id s")
    case None
    with True show ?thesis by (simp add: add_message_to_db_def)
  next
    case (Some sid)
    show ?thesis
    proof (cases "add_message db u sid ro c md")
      case (Inl e)
      with True Some show ?thesis by (simp add: add_message_to_db_def)
    next
      case (Inr res)
      then obtain db1 mid where "add_message db u sid ro c md = Inr (db1, mid)"
        by (cases res) simp
      with True Some add_message_row [OF this] show ?thesis
        by (simp add: add_message_to_db_def)
    qed
  qed
qed

lemma add_message_to_db_accepted:
  assumes "database_enabled s" and "current_session_id s = Some sid"
    and "add_message db u sid ro c md = Inr (db1, mid)"
  shows "add_message_to_db u s db ro c md = db1"
  using assms by (simp add: add_message_to_db_def)

lemma appended_row:
  "add_message_to_db u s db ro c md = db
   \<or> (\<exists>row. database_enabled s \<and> current_session_id s = Some (m_session_id row)
         \<and> add_message_to_db u s db ro c md
             = db\<lparr>chat_messages := chat_messages db @ [row]\<rparr>)"
proof -
  from add_message_to_db_cases [of u s db ro c md] show ?thesis
  proof
    assume "add_message_to_db u s db ro c md = db"
    then show ?thesis by simp
  next
    assume "\<exists>sid. database_enabled s \<and> current_session_id s = Some sid
         \<and> add_message_to_db u s db ro c md =
             db\<lparr>chat_messages := chat_messages db
                   @ [\<lparr>message_id = u, m_session_id = sid, m_role = ro, m_content = c,
                       message_order = next_message_order db sid, m_metadata = md\<rparr>]\<rparr>"
    then obtain sid where a: "database_enabled s" "current_session_id s = Some sid"
      "add_message_to_db u s db ro c md =
             db\<lparr>chat_messages := chat_messages db
                   @ [\<lparr>message_id = u, m_session_id = sid, m_role = ro, m_content = c,
                       message_order = next_message_order db sid, m_metadata = md\<rparr>]\<rparr>"
      by blast
    show ?thesis
      by (intro disjI2
            exI [of _ "\<lparr>message_id = u, m_session_id = sid, m_role = ro, m_content = c,
                       message_order = next_message_order db sid, m_metadata = md\<rparr>"])
         (simp add: a)
  qed
qed

lemma saved_row:
  "save_last_assistant ev s db b m r mode = db
   \<or> (\<exists>row. database_enabled s \<and> current_session_id s = Some (m_session_id row)
         \<and> save_last_assistant ev s db b m r mode
             = db\<lparr>chat_messages := chat_messages db @ [row]\<rparr>)"
proof (cases "rev (conversation_history s)")
  case Nil
  then show ?thesis by (simp add: save_last_assistant_def)
next
  case (Cons x xs)
  show ?thesis
  proof (cases "role x = ''assistant''")
    case True
    with Cons appended_row [of "assistant_uuid ev" s db "''assistant''" "content x"
        "assistant_metadata b m r mode"]
    show ?thesis by (simp add: save_last_assistant_def)
  next
    case False
    with Cons show ?thesis by (simp add: save_last_assistant_def)
  qed
qed

lemma session_messages_append:
  "session_messages (db\<lparr>chat_messages := chat_messages db @ [row]\<rparr>) sid =
     session_messages db sid @ (if m_session_id row = sid then [row] else [])"
  by (simp add: session_messages_def)

lemma cleared_fields [simp]:
  "current_session_id (cleared self) = None"
  "database_enabled (cleared self) = database_enabled self"
  by (simp_all add: cleared_def)

lemma extends_store_append:
  assumes "chat_sessions db' = chat_sessions db @ ss"
    and "chat_messages db' = chat_messages db @ rows"
    and "list_all (\<lambda>row. m_session_id row \<notin> set (map session_id (chat_sessions db))) rows"
  shows "extends_store db db'"
  using assms by (simp add: extends_store_def)

subsection \<open>The subclass's generator\<close>

lemma child_unfold:
  assumes "ensure_session ev (with_settings self b m r mode) db b m = Inr (s2, db2)"
  shows "DatabaseLLMGUIChat_send_message_stream loads ev post self db msg history b m r mode =
     (case LLMGUIChat_send_message_stream loads post s2 msg history b m r mode of
        (ys, s3, raised) \<Rightarrow>
          (map (\<lambda>(y, s). (y, s, add_message_to_db (user_uuid ev) s2 db2 ''user'' msg [])) ys,
           (s3, case raised of
                  Some e \<Rightarrow> add_message_to_db (user_uuid ev) s2 db2 ''user'' msg []
                | None \<Rightarrow>
                    save_last_assistant ev s3
                      (add_message_to_db (user_uuid ev) s2 db2 ''user'' msg []) b m r mode),
           raised))"
  using assms
  by (simp add: DatabaseLLMGUIChat_send_message_stream_def Let_def
      split: prod.splits option.splits)

lemma child_completed:
  fixes s2 :: "'a DatabaseLLMGUIChat_scheme" and msg b m mode :: string and r :: bool
    and ev :: env and db2 :: database and history :: "message list"
  defines "s3 \<equiv> started s2 msg b m r mode"
    and "db3 \<equiv> add_message_to_db (user_uuid ev) s2 db2 ''user'' msg []"
    and "h \<equiv> display_start history msg"
  assumes "strip msg \<noteq> []"
    and "ensure_session ev (with_settings self b m r mode) db b m = Inr (s2, db2)"
    and "exchange loads b post = Completed ai toks"
  shows "DatabaseLLMGUIChat_send_message_stream loads ev post self db msg history b m r mode =
     (map (\<lambda>(y, s). (y, s, db3)) (token_yields b s3 h toks)
        @ [(([], display_after b s3 h toks, completed_status (backend_name b) m),
            add_assistant s3 ai, db3)],
      (add_assistant s3 ai,
       add_message_to_db (assistant_uuid ev) s2 db3 ''assistant'' ai
         (assistant_metadata b m r mode)),
      None)"
  using assms(4-6) unfolding s3_def db3_def h_def
  by (simp add: child_unfold parent_completed save_after_completed
      add_message_to_db_self [of "started s2 msg b m r mode" s2])

lemma child_interrupted:
  fixes s2 :: "'a DatabaseLLMGUIChat_scheme" and msg b m mode :: string and r :: bool
    and ev :: env and db2 :: database and history :: "message list"
  defines "s3 \<equiv> started s2 msg b m r mode"
    and "db3 \<equiv> add_message_to_db (user_uuid ev) s2 db2 ''user'' msg []"
    and "h \<equiv> display_start history msg"
  assumes "strip msg \<noteq> []"
    and "ensure_session ev (with_settings self b m r mode) db b m = Inr (s2, db2)"
    and "exchange loads b post = Interrupted ai toks e"
    and "is_Exception e"
  shows "DatabaseLLMGUIChat_send_message_stream loads ev post self db msg history b m r mode =
     (map (\<lambda>(y, s). (y, s, db3)) (token_yields b s3 h toks)
        @ [(([], set_last_content (display_after b s3 h toks) (cross @ error_text e),
             error_text e),
            s3, db3)],
      (s3, db3), None)"
  using assms(4-7) unfolding s3_def db3_def h_def
  by (simp add: child_unfold parent_interrupted save_after_user)

text \<open>
  The store after any call of \<open>send_message_stream\<close> that got its session: the
  sessions are those behind \<open>ensure_session\<close>, and at most two message rows were
  appended, both for the current session.
\<close>

lemma child_store_shape:
  assumes "ensure_session ev (with_settings self b m r mode) db b m = Inr (s2, db2)"
  shows "\<exists>ys s3 db' raised rows.
     DatabaseLLMGUIChat_send_message_stream loads ev post self db msg history b m r mode
       = (ys, (s3, db'), raised)
     \<and> current_session_id s3 = current_session_id s2
     \<and> chat_sessions db' = chat_sessions db2
     \<and> chat_messages db' = chat_messages db2 @ rows
     \<and> list_all (\<lambda>row. current_session_id s2 = Some (m_session_id row)) rows
     \<and> (if database_enabled s2 then True else rows = [])"
proof -
  obtain ys s3 raised where p:
    "LLMGUIChat_send_message_stream loads post s2 msg history b m r mode = (ys, s3, raised)"
    by (rule prod_cases3)
  from parent_keeps_session [OF p]
  have keep: "current_session_id s3 = current_session_id s2"
    "database_enabled s3 = database_enabled s2" by simp_all
  let ?db3 = "add_message_to_db (user_uuid ev) s2 db2 ''user'' msg []"
  let ?dbf = "case raised of Some e \<Rightarrow> ?db3
              | None \<Rightarrow> save_last_assistant ev s3 ?db3 b m r mode"
  from child_unfold [OF assms, of loads post msg history] p
  have res: "DatabaseLLMGUIChat_send_message_stream loads ev post self db msg history b m r mode
       = (map (\<lambda>(y, s). (y, s, ?db3)) ys, (s3, ?dbf), raised)"
    by simp
  from appended_row [of "user_uuid ev" s2 db2 "''user''" msg "[]"]
  obtain rows1 where r1: "chat_sessions ?db3 = chat_sessions db2"
    "chat_messages ?db3 = chat_messages db2 @ rows1"
    "list_all (\<lambda>row. current_session_id s2 = Some (m_session_id row)) rows1"
    "if database_enabled s2 then True else rows1 = []"
  proof
    assume a: "?db3 = db2"
    show thesis by (rule that [of "[]"]) (simp_all add: a)
  next
    assume "\<exists>row. database_enabled s2 \<and> current_session_id s2 = Some (m_session_id row)
         \<and> ?db3 = db2\<lparr>chat_messages := chat_messages db2 @ [row]\<rparr>"
    then obtain row where a: "current_session_id s2 = Some (m_session_id row)"
      "?db3 = db2\<lparr>chat_messages := chat_messages db2 @ [row]\<rparr>"
      "database_enabled s2" by blast
    show thesis by (rule that [of "[row]"]) (simp_all add: a)
  qed
  have "\<exists>rows2. chat_sessions ?dbf = chat_sessions ?db3
      \<and> chat_messages ?dbf = chat_messages ?db3 @ rows2
      \<and> list_all (\<lambda>row. current_session_id s2 = Some (m_session_id row)) rows2
      \<and> (if database_enabled s2 then True else rows2 = [])"
  proof (cases raised)
    case (Some e)
    then show ?thesis by simp
  next
    case None
    from saved_row [of ev s3 ?db3 b m r mode] show ?thesis
    proof
      assume a: "save_last_assistant ev s3 ?db3 b m r mode = ?db3"
      with None show ?thesis by simp
    next
      assume "\<exists>row. database_enabled s3 \<and> current_session_id s3 = Some (m_session_id row)
         \<and> save_last_assistant ev s3 ?db3 b m r mode
             = ?db3\<lparr>chat_messages := chat_messages ?db3 @ [row]\<rparr>"
      then obtain row where a: "current_session_id s3 = Some (m_session_id row)"
        "save_last_assistant ev s3 ?db3 b m r mode
             = ?db3\<lparr>chat_messages := chat_messages ?db3 @ [row]\<rparr>"
        "database_enabled s3" by blast
      with None keep have "chat_sessions ?dbf = chat_sessions ?db3
        \<and> chat_messages ?dbf = chat_messages ?db3 @ [row]
        \<and> list_all (\<lambda>row. current_session_id s2 = Some (m_session_id row)) [row]
        \<and> (if database_enabled s2 then True else [row] = [])"
        by simp
      then show ?thesis by blast
    qed
  qed
  then obtain rows2 where r2: "chat_sessions ?dbf = chat_sessions ?db3"
    "chat_messages ?dbf = chat_messages ?db3 @ rows2"
    "list_all (\<lambda>row. current_session_id s2 = Some (m_session_id row)) rows2"
    "if database_enabled s2 then True else rows2 = []" by blast
  from r1 r2 have "chat_sessions ?dbf = chat_sessions db2
     \<and> chat_messages ?dbf = chat_messages db2 @ (rows1 @ rows2)
     \<and> list_all (\<lambda>row. current_session_id s2 = Some (m_session_id row)) (rows1 @ rows2)
     \<and> (if database_enabled s2 then True else rows1 @ rows2 = [])"
    by (simp split: if_splits)
  with res keep(1) show ?thesis by blast
qed

subsection \<open>The examples\<close>

lemma strip_examples:
  "strip ''hi'' \<noteq> []" "strip ''again'' \<noteq> []" "strip '' '' = []"
  by (simp_all add: strip_def is_cont_def isspace_def whitespace_def)

lemma example_exchanges:
  "exchange example_loads ''ollama'' (Response r_done) = Completed ''Hello'' [''He'', ''llo'']"
  "exchange example_loads ''ollama'' (Response r_drop)
     = Interrupted ''Hello'' [''He'', ''llo''] (Exn RequestException ''Connection broken'')"
  by (simp_all add: exchange_def backend_step_def r_done_def r_drop_def example_ollama_steps)

lemma example_settings:
  "with_settings example_gui ''ollama'' ''llama3.1:8b'' False ''simple'' = example_gui"
  by (simp add: with_settings_def example_gui_def)

lemma example_ensure:
  "ensure_session ev (with_settings example_gui ''ollama'' ''llama3.1:8b'' False ''simple'')
     db ''ollama'' ''llama3.1:8b''
   = Inr (example_gui, db)"
  unfolding example_settings
  by (rule ensure_session_existing [where sid = 7]) (simp add: example_gui_def)

lemma example_user_add:
  "add_message example_db (user_uuid example_env) 7 ''user'' ''hi'' [] = Inr (example_db_hi, 100)"
  by (simp add: add_message_def next_message_order_def session_orders_def example_db_def
      example_db_hi_def example_env_def)

lemma example_user_saved:
  "add_message_to_db (user_uuid example_env) example_gui example_db ''user'' ''hi'' []
     = example_db_hi"
  by (rule add_message_to_db_accepted [OF _ _ example_user_add])
     (simp_all add: example_gui_def)

lemma example_assistant_saved:
  "map (\<lambda>row. (m_role row, m_content row, message_order row))
     (chat_messages
        (add_message_to_db (assistant_uuid example_env) example_gui example_db_hi ''assistant''
           ''Hello'' md))
   = [(''user'', ''hi'', 1), (''assistant'', ''Hello'', 2)]"
  by (simp add: add_message_to_db_def add_message_def next_message_order_def session_orders_def
      example_db_def example_db_hi_def example_env_def example_gui_def)

lemma example_is_Exception: "is_Exception (Exn RequestException t)"
  by (simp add: is_Exception_def)

lemma example_first_yield:
  "hd (fst (DatabaseLLMGUIChat_send_message_stream example_loads example_env (Response r_done)
              example_gui example_db ''hi'' [] ''ollama'' ''llama3.1:8b'' False ''simple''))
   = (([], [user_entry ''hi'', \<lparr>role = ''assistant'', content = ''He''\<rparr>],
       streaming_status ''Ollama'' ''llama3.1:8b''),
      example_gui_mid, example_db_hi)"
  using child_completed [OF strip_examples(1) example_ensure example_exchanges(1),
    where ev = example_env and db = example_db and history = "[]"]
  by (simp add: example_user_saved token_yields_def display_start_def set_last_content_def
      Let_def backend_name_def example_gui_mid_def)

lemma example_mid_ensure:
  "ensure_session ev (with_settings example_gui_mid ''ollama'' ''llama3.1:8b'' False ''simple'')
     db ''ollama'' ''llama3.1:8b''
   = Inr (example_gui_mid, db)"
proof -
  have "with_settings example_gui_mid ''ollama'' ''llama3.1:8b'' False ''simple''
          = example_gui_mid"
    by (simp add: example_gui_mid_def started_def with_settings_def)
  moreover have "current_session_id example_gui_mid = Some 7"
    by (simp add: example_gui_mid_def example_gui_def)
  ultimately show ?thesis by (simp add: ensure_session_existing)
qed

lemma example_mid_saved:
  "map (\<lambda>row. (m_role row, m_content row, message_order row))
     (session_messages
        (add_message_to_db (assistant_uuid example_env_next) example_gui_mid
           (add_message_to_db (user_uuid example_env_next) example_gui_mid example_db_hi
              ''user'' ''again'' [])
           ''assistant'' ''Hello'' md) 7)
   = [(''user'', ''hi'', 1), (''user'', ''again'', 2), (''assistant'', ''Hello'', 3)]"
  by (simp add: add_message_to_db_def add_message_def next_message_order_def session_orders_def
      session_messages_def example_db_def example_db_hi_def example_env_next_def
      example_gui_mid_def example_gui_def)

subsection \<open>Persisting and acknowledging\<close>

text \<open>
  Claim C1 as stated fails: in the exchange of the example the generator yields the
  completed status while the store holds the user message alone; the assistant message
  is in the store only when the generator has been resumed and is exhausted.
\<close>

theorem store_append_after_completed_yield_counterexample:
  "(case DatabaseLLMGUIChat_send_message_stream example_loads example_env (Response r_done)
           example_gui example_db ''hi'' [] ''ollama'' ''llama3.1:8b'' False ''simple'' of
      (ys, (s, d), raised) \<Rightarrow>
        (case last ys of
           (y, s_ack, d_ack) \<Rightarrow>
             snd (snd y) = completed_status ''Ollama'' ''llama3.1:8b''
             \<and> map content (conversation_history s_ack) = [''hi'', ''Hello'']
             \<and> map (\<lambda>row. (m_role row, m_content row, message_order row)) (chat_messages d_ack)
                 = [(''user'', ''hi'', 1)]
             \<and> map (\<lambda>row. (m_role row, m_content row, message_order row)) (chat_messages d)
                 = [(''user'', ''hi'', 1), (''assistant'', ''Hello'', 2)]))"
  using child_completed [OF strip_examples(1) example_ensure example_exchanges(1),
    where ev = example_env and db = example_db and history = "[]"]
  by (simp add: example_user_saved example_assistant_saved)
     (simp add: add_assistant_def user_entry_def example_db_hi_def example_gui_def
        backend_name_def)

text \<open>
  Claim C1, as amended. For every streaming exchange with a text that is not blank,
  once the session is there, that ends with the loop over the lines left normally
  (Done): the assistant text is appended to the history in memory before the completed
  status is yielded; every yield, the completed one included, happens with the store
  holding the user message of the exchange as its last write; the store append of the
  assistant text, with its metadata, follows the completed yield and is the last
  effect of the call.
\<close>

theorem completed_yield_precedes_store_append:
  assumes "strip msg \<noteq> []"
    and "ensure_session ev (with_settings self b m r mode) db b m = Inr (s2, db2)"
    and "exchange loads b post = Completed ai toks"
  shows "DatabaseLLMGUIChat_send_message_stream loads ev post self db msg history b m r mode =
     (map (\<lambda>(y, s). (y, s, add_message_to_db (user_uuid ev) s2 db2 ''user'' msg []))
        (token_yields b (started s2 msg b m r mode) (display_start history msg) toks)
        @ [(([], display_after b (started s2 msg b m r mode) (display_start history msg) toks,
             completed_status (backend_name b) m),
            add_assistant (started s2 msg b m r mode) ai,
            add_message_to_db (user_uuid ev) s2 db2 ''user'' msg [])],
      (add_assistant (started s2 msg b m r mode) ai,
       add_message_to_db (assistant_uuid ev) s2
         (add_message_to_db (user_uuid ev) s2 db2 ''user'' msg [])
         ''assistant'' ai (assistant_metadata b m r mode)),
      None)"
  using assms by (rule child_completed)

text \<open>Claim C1 as amended, at the exchange of the example.\<close>

theorem completed_yield_witness:
  "snd (DatabaseLLMGUIChat_send_message_stream example_loads example_env (Response r_done)
           example_gui example_db ''hi'' [] ''ollama'' ''llama3.1:8b'' False ''simple'')
   = ((add_assistant (started example_gui ''hi'' ''ollama'' ''llama3.1:8b'' False ''simple'')
         ''Hello'',
       add_message_to_db 101 example_gui example_db_hi ''assistant'' ''Hello''
         (assistant_metadata ''ollama'' ''llama3.1:8b'' False ''simple'')),
      None)"
  using completed_yield_precedes_store_append
    [OF strip_examples(1) example_ensure example_exchanges(1),
     where ev = example_env and db = example_db and history = "[]"]
  by (simp add: example_user_saved) (simp add: example_env_def)

subsection \<open>A stream that fails\<close>

text \<open>
  Claim C2 as stated fails: after the two fragments \<open>He\<close> and \<open>llo\<close> the
  connection drops. The store holds the user message alone, with empty metadata, the
  history in memory ends with the user entry, and the last yield shows the text of
  the error in place of the partial text.
\<close>

theorem partial_text_not_persisted_counterexample:
  "exchange example_loads ''ollama'' (Response r_drop)
     = Interrupted ''Hello'' [''He'', ''llo''] (Exn RequestException ''Connection broken'')
   \<and> (case DatabaseLLMGUIChat_send_message_stream example_loads example_env (Response r_drop)
           example_gui example_db ''hi'' [] ''ollama'' ''llama3.1:8b'' False ''simple'' of
        (ys, (s, d), raised) \<Rightarrow>
          map (\<lambda>row. (m_role row, m_content row, m_metadata row)) (chat_messages d)
            = [(''user'', ''hi'', [])]
          \<and> conversation_history s = [user_entry ''hi'']
          \<and> (case last ys of
                (y, s_end, d_end) \<Rightarrow>
                  snd (snd y) = ''Connection error: Connection broken''
                  \<and> map content (fst (snd y))
                      = [''hi'', cross @ ''Connection error: Connection broken'']))"
proof
  show "exchange example_loads ''ollama'' (Response r_drop)
     = Interrupted ''Hello'' [''He'', ''llo''] (Exn RequestException ''Connection broken'')"
    by (rule example_exchanges(2))
next
  have disp: "map content
      (set_last_content
         (display_after ''ollama'' (started example_gui ''hi'' ''ollama'' ''llama3.1:8b'' False
             ''simple'') (display_start [] ''hi'') [''He'', ''llo''])
         t) = [''hi'', t]" for t
    by (simp add: display_after_def display_start_def set_last_content_def user_entry_def Let_def)
  from child_interrupted
    [OF strip_examples(1) example_ensure example_exchanges(2) example_is_Exception,
     where ev = example_env and db = example_db and history = "[]"]
  show "case DatabaseLLMGUIChat_send_message_stream example_loads example_env (Response r_drop)
           example_gui example_db ''hi'' [] ''ollama'' ''llama3.1:8b'' False ''simple'' of
        (ys, (s, d), raised) \<Rightarrow>
          map (\<lambda>row. (m_role row, m_content row, m_metadata row)) (chat_messages d)
            = [(''user'', ''hi'', [])]
          \<and> conversation_history s = [user_entry ''hi'']
          \<and> (case last ys of
                (y, s_end, d_end) \<Rightarrow>
                  snd (snd y) = ''Connection error: Connection broken''
                  \<and> map content (fst (snd y))
                      = [''hi'', cross @ ''Connection error: Connection broken''])"
    by (simp add: example_user_saved disp)
       (simp add: example_db_hi_def example_gui_def error_text_def is_RequestException_def)
qed

text \<open>
  Claim C2, as amended. For every streaming exchange with a text that is not blank,
  once the session is there, whose loop over the lines is left by an exception of
  class \<open>Exception\<close> after K fragments: the K partial texts were yielded while they
  arrived; the last yield replaces the assistant entry of the displayed chat by the
  text of the error, which is the status as well; no assistant entry is appended to
  the history in memory and no assistant message is written to the store, which
  holds the user message as its last write. No metadata carries an error flag.
\<close>

theorem failed_stream_discards_partial_text:
  assumes "strip msg \<noteq> []"
    and "ensure_session ev (with_settings self b m r mode) db b m = Inr (s2, db2)"
    and "exchange loads b post = Interrupted ai toks e"
    and "is_Exception e"
  shows "DatabaseLLMGUIChat_send_message_stream loads ev post self db msg history b m r mode =
     (map (\<lambda>(y, s). (y, s, add_message_to_db (user_uuid ev) s2 db2 ''user'' msg []))
        (token_yields b (started s2 msg b m r mode) (display_start history msg) toks)
        @ [(([], set_last_content
                   (display_after b (started s2 msg b m r mode) (display_start history msg) toks)
                   (cross @ error_text e),
             error_text e),
            started s2 msg b m r mode,
            add_message_to_db (user_uuid ev) s2 db2 ''user'' msg [])],
      (started s2 msg b m r mode, add_message_to_db (user_uuid ev) s2 db2 ''user'' msg []),
      None)"
  using assms by (rule child_interrupted)

text \<open>Claim C2 as amended, at the dropped stream of the example.\<close>

theorem failed_stream_witness:
  "snd (DatabaseLLMGUIChat_send_message_stream example_loads example_env (Response r_drop)
           example_gui example_db ''hi'' [] ''ollama'' ''llama3.1:8b'' False ''simple'')
   = ((started example_gui ''hi'' ''ollama'' ''llama3.1:8b'' False ''simple'', example_db_hi),
      None)"
  using failed_stream_discards_partial_text
    [OF strip_examples(1) example_ensure example_exchanges(2) example_is_Exception,
     where ev = example_env and db = example_db and history = "[]"]
  by (simp add: example_user_saved)

subsection \<open>A second call on a session\<close>

text \<open>
  Claim C3 as stated fails: the first exchange of the example is suspended at its
  first streaming yield, its session holding one message. A second call on the same
  object and session is not rejected: it runs to its completed status without an
  exception and the session holds three messages after it.
\<close>

theorem second_call_during_stream_counterexample:
  "(case hd (fst (DatabaseLLMGUIChat_send_message_stream example_loads example_env
                    (Response r_done) example_gui example_db ''hi'' [] ''ollama''
                    ''llama3.1:8b'' False ''simple'')) of
      (y, s_mid, db_mid) \<Rightarrow>
        snd (snd y) = streaming_status ''Ollama'' ''llama3.1:8b''
        \<and> length (session_messages db_mid 7) = 1
        \<and> (case DatabaseLLMGUIChat_send_message_stream example_loads example_env_next
                   (Response r_done) s_mid db_mid ''again'' (fst (snd y)) ''ollama''
                   ''llama3.1:8b'' False ''simple'' of
              (ys, (s, d), raised) \<Rightarrow>
                raised = None
                \<and> snd (snd (fst (last ys))) = completed_status ''Ollama'' ''llama3.1:8b''
                \<and> map (\<lambda>row. (m_role row, m_content row, message_order row))
                      (session_messages d 7)
                    = [(''user'', ''hi'', 1), (''user'', ''again'', 2),
                       (''assistant'', ''Hello'', 3)]))"
  using child_completed [OF strip_examples(2) example_mid_ensure example_exchanges(1),
    where ev = example_env_next and db = example_db_hi
    and history = "[user_entry ''hi'', \<lparr>role = ''assistant'', content = ''He''\<rparr>]"]
  by (simp add: example_first_yield example_mid_saved)
     (simp add: session_messages_def example_db_hi_def example_db_def backend_name_def)

text \<open>
  Claim C3, as amended. The class records no exchange in flight and has no
  \<open>SessionBusy\<close> condition: a call of \<open>send_message_stream\<close> on an object with a
  current session is processed whatever else is suspended on that session. When the
  store accepts the append, the user message is written to that session before the
  first yield, so the message count of the session is one higher at every yield, and
  at least one higher at the end, than before the call.
\<close>

theorem second_call_is_processed:
  assumes "database_enabled self" and "current_session_id self = Some sid"
    and "add_message db (user_uuid ev) sid ''user'' msg [] = Inr (db1, mid)"
  shows "case DatabaseLLMGUIChat_send_message_stream loads ev post self db msg history b m r mode of
      (ys, (s', db'), raised) \<Rightarrow>
        list_all (\<lambda>(y, s, d). d = db1) ys
        \<and> length (session_messages db1 sid) = Suc (length (session_messages db sid))
        \<and> length (session_messages db1 sid) \<le> length (session_messages db' sid)"
proof -
  let ?s1 = "with_settings self b m r mode"
  from assms(2) have ens: "ensure_session ev ?s1 db b m = Inr (?s1, db)"
    by (intro ensure_session_existing [where sid = sid]) simp
  from assms have db3: "add_message_to_db (user_uuid ev) ?s1 db ''user'' msg [] = db1"
    by (intro add_message_to_db_accepted [where sid = sid and mid = mid]) simp_all
  obtain ys s3 raised where p:
    "LLMGUIChat_send_message_stream loads post ?s1 msg history b m r mode = (ys, s3, raised)"
    by (rule prod_cases3)
  let ?dbf = "case raised of Some e \<Rightarrow> db1
              | None \<Rightarrow> save_last_assistant ev s3 db1 b m r mode"
  from child_unfold [OF ens, of loads post msg history] p db3
  have res: "DatabaseLLMGUIChat_send_message_stream loads ev post self db msg history b m r mode
       = (map (\<lambda>(y, s). (y, s, db1)) ys, (s3, ?dbf), raised)"
    by (simp split: option.splits)
  have snap: "list_all (\<lambda>(y, s, d). d = db1) (map (\<lambda>(y, s). (y, s, db1)) ys)"
    by (induction ys) auto
  from add_message_row [OF assms(3)]
  have one: "length (session_messages db1 sid) = Suc (length (session_messages db sid))"
    by (simp add: session_messages_append)
  have "length (session_messages db1 sid) \<le> length (session_messages ?dbf sid)"
  proof (cases raised)
    case (Some e)
    then show ?thesis by simp
  next
    case None
    from saved_row [of ev s3 db1 b m r mode] None show ?thesis
      by (auto simp: session_messages_append)
  qed
  with res snap one show ?thesis by simp
qed

text \<open>Claim C3 as amended, at the first call of the example.\<close>

theorem second_call_witness:
  "(case DatabaseLLMGUIChat_send_message_stream example_loads example_env (Response r_done)
           example_gui example_db ''hi'' [] ''ollama'' ''llama3.1:8b'' False ''simple'' of
      (ys, (s', db'), raised) \<Rightarrow>
        list_all (\<lambda>(y, s, d). d = example_db_hi) ys
        \<and> length (session_messages example_db_hi 7)
            = Suc (length (session_messages example_db 7))
        \<and> length (session_messages example_db_hi 7) \<le> length (session_messages db' 7))"
  by (rule second_call_is_processed [OF _ _ example_user_add])
     (simp_all add: example_gui_def)

subsection \<open>The messages an exchange persists\<close>

text \<open>
  With a text that is not blank and a store that accepts the appends, an exchange
  that completes adds the user row and then the assistant row, and one that fails
  before any byte of the backend is read adds the user row alone.
\<close>

lemma exchange_persists_user_then_assistant:
  assumes "strip msg \<noteq> []" and "database_enabled self"
    and "current_session_id self = Some sid"
    and "add_message db (user_uuid ev) sid ''user'' msg [] = Inr (db1, mid1)"
    and "exchange loads b post = Completed ai toks"
    and "add_message db1 (assistant_uuid ev) sid ''assistant'' ai
           (assistant_metadata b m r mode) = Inr (db2, mid2)"
  shows "snd (fst (snd (DatabaseLLMGUIChat_send_message_stream loads ev post self db msg
                          history b m r mode)))
         = db\<lparr>chat_messages := chat_messages db
               @ [\<lparr>message_id = user_uuid ev, m_session_id = sid, m_role = ''user'',
                   m_content = msg, message_order = next_message_order db sid,
                   m_metadata = []\<rparr>,
                  \<lparr>message_id = assistant_uuid ev, m_session_id = sid,
                   m_role = ''assistant'', m_content = ai,
                   message_order = next_message_order db1 sid,
                   m_metadata = assistant_metadata b m r mode\<rparr>]\<rparr>"
proof -
  let ?s1 = "with_settings self b m r mode"
  from assms(3) have ens: "ensure_session ev ?s1 db b m = Inr (?s1, db)"
    by (intro ensure_session_existing [where sid = sid]) simp
  from assms(2-4) have u: "add_message_to_db (user_uuid ev) ?s1 db ''user'' msg [] = db1"
    by (intro add_message_to_db_accepted [where sid = sid and mid = mid1]) simp_all
  from assms(2,3,6)
  have a: "add_message_to_db (assistant_uuid ev) ?s1 db1 ''assistant'' ai
             (assistant_metadata b m r mode) = db2"
    by (intro add_message_to_db_accepted [where sid = sid and mid = mid2]) simp_all
  from child_completed [OF assms(1) ens assms(5), where history = history]
  have "snd (fst (snd (DatabaseLLMGUIChat_send_message_stream loads ev post self db msg
                          history b m r mode))) = db2"
    by (simp add: u a)
  with add_message_row [OF assms(4)] add_message_row [OF assms(6)] show ?thesis
    by simp
qed

lemma immediate_failure_persists_user_only:
  assumes "strip msg \<noteq> []" and "database_enabled self"
    and "current_session_id self = Some sid"
    and "add_message db (user_uuid ev) sid ''user'' msg [] = Inr (db1, mid1)"
    and "(exchange loads b post = Unreachable e \<and> is_Exception e)
         \<or> exchange loads b post = Rejected resp"
  shows "snd (fst (snd (DatabaseLLMGUIChat_send_message_stream loads ev post self db msg
                          history b m r mode)))
         = db\<lparr>chat_messages := chat_messages db
               @ [\<lparr>message_id = user_uuid ev, m_session_id = sid, m_role = ''user'',
                   m_content = msg, message_order = next_message_order db sid,
                   m_metadata = []\<rparr>]\<rparr>"
proof -
  let ?s1 = "with_settings self b m r mode"
  from assms(3) have ens: "ensure_session ev ?s1 db b m = Inr (?s1, db)"
    by (intro ensure_session_existing [where sid = sid]) simp
  from assms(2-4) have u: "add_message_to_db (user_uuid ev) ?s1 db ''user'' msg [] = db1"
    by (intro add_message_to_db_accepted [where sid = sid and mid = mid1]) simp_all
  from assms(5)
  have "\<exists>ys. LLMGUIChat_send_message_stream loads post ?s1 msg history b m r mode
          = (ys, started ?s1 msg b m r mode, None)"
    using parent_unreachable [OF assms(1), where self = ?s1 and history = history]
      parent_rejected [OF assms(1), where self = ?s1 and history = history]
    by auto
  then obtain ys where "LLMGUIChat_send_message_stream loads post ?s1 msg history b m r mode
          = (ys, started ?s1 msg b m r mode, None)" by blast
  with child_unfold [OF ens, where loads = loads and post = post and msg = msg
      and history = history]
  have "snd (fst (snd (DatabaseLLMGUIChat_send_message_stream loads ev post self db msg
                          history b m r mode))) = db1"
    by (simp add: u save_after_user)
  with add_message_row [OF assms(4)] show ?thesis by simp
qed

text \<open>
  Claim C5 at a blank message, sent in a session with one exchange behind it. The
  parent rejects the text before any request to the backend, but the user message is
  already written, and the last entry of the history in memory, the assistant text of
  the exchange before, is written once more: two rows are added, the blank user
  message and a second copy of \<open>Hello\<close>, where the claim has one user row and no
  assistant row.
\<close>

theorem blank_message_persists_old_assistant_text:
  "(case DatabaseLLMGUIChat_send_message_stream example_loads example_env (Response r_done)
           example_gui_two example_db_two '' '' [] ''ollama'' ''llama3.1:8b'' False ''simple'' of
      (ys, (s, d), raised) \<Rightarrow>
        map (\<lambda>(y, s, d). snd (snd y)) ys = [please_enter]
        \<and> raised = None
        \<and> map (\<lambda>row. (m_role row, m_content row, message_order row)) (chat_messages d)
            = [(''user'', ''hi'', 1), (''assistant'', ''Hello'', 2),
               (''user'', '' '', 3), (''assistant'', ''Hello'', 4)])"
proof -
  have "ensure_session example_env
          (with_settings example_gui_two ''ollama'' ''llama3.1:8b'' False ''simple'')
          example_db_two ''ollama'' ''llama3.1:8b''
        = Inr (with_settings example_gui_two ''ollama'' ''llama3.1:8b'' False ''simple'',
               example_db_two)"
    by (rule ensure_session_existing [where sid = 7])
       (simp add: example_gui_two_def example_gui_def)
  from child_unfold [OF this] show ?thesis
    by (simp add: parent_blank strip_examples save_last_assistant_def add_message_to_db_def
        add_message_def next_message_order_def session_orders_def with_settings_def
        example_gui_two_def example_gui_def example_db_two_def example_db_def example_env_def)
qed

subsection \<open>Clearing the conversation\<close>

text \<open>
  Claim C9. \<open>clear_conversation\<close> changes the object alone: the history in memory
  is emptied and the current session id and name are reset; the store is no argument
  of it. After it, whatever the next \<open>send_message_stream\<close> does, every session row
  and every message row that was in the store is still there unchanged, and no row is
  added for a session that was there. When the database is enabled and
  \<open>create_session\<close> succeeds, that next call starts with a new session row, under
  an id no session had, makes it the current session and writes its messages there.
\<close>

theorem clear_keeps_persisted_history:
  "DatabaseLLMGUIChat_clear_conversation self = (([], cleared_status), cleared self)
   \<and> (case DatabaseLLMGUIChat_send_message_stream loads ev post (cleared self) db msg history
              b m r mode of
        (ys, (s', db'), raised) \<Rightarrow>
          extends_store db db'
          \<and> (database_enabled self
              \<and> create_session db (session_uuid ev) (now_ymd_hm ev) b m None = Inr (db1, sid)
              \<longrightarrow> chat_sessions db' = chat_sessions db1
                  \<and> chat_sessions db1 = chat_sessions db
                       @ [\<lparr>session_id = sid,
                           s_session_name = default_session_name b m (now_ymd_hm ev),
                           s_backend = b, s_model = m, s_metadata = []\<rparr>]
                  \<and> sid \<notin> set (map session_id (chat_sessions db))
                  \<and> current_session_id s' = Some sid
                  \<and> list_all (\<lambda>row. m_session_id row = sid)
                        (drop (length (chat_messages db)) (chat_messages db'))))"
proof
  show "DatabaseLLMGUIChat_clear_conversation self = (([], cleared_status), cleared self)"
    by (simp add: DatabaseLLMGUIChat_clear_conversation_def LLMGUIChat_clear_conversation_def
        cleared_def)
next
  let ?s1 = "with_settings (cleared self) b m r mode"
  let ?send = "DatabaseLLMGUIChat_send_message_stream loads ev post (cleared self) db msg history
              b m r mode"
  let ?fresh = "\<lambda>s' db'. database_enabled self
              \<and> create_session db (session_uuid ev) (now_ymd_hm ev) b m None = Inr (db1, sid)
              \<longrightarrow> chat_sessions db' = chat_sessions db1
                  \<and> chat_sessions db1 = chat_sessions db
                       @ [\<lparr>session_id = sid,
                           s_session_name = default_session_name b m (now_ymd_hm ev),
                           s_backend = b, s_model = m, s_metadata = []\<rparr>]
                  \<and> sid \<notin> set (map session_id (chat_sessions db))
                  \<and> current_session_id s' = Some sid
                  \<and> list_all (\<lambda>row. m_session_id row = sid)
                        (drop (length (chat_messages db)) (chat_messages db'))"
  have "\<exists>ys s' db' raised. ?send = (ys, (s', db'), raised) \<and> extends_store db db' \<and> ?fresh s' db'"
  proof (cases "database_enabled self")
    case False
    then have ens: "ensure_session ev ?s1 db b m
        = Inr (?s1\<lparr>current_session_id := Some (uuid4 ev),
                   session_name := Some (''memory-session-'' @ now_hm ev),
                   conversation_history := []\<rparr>, db)"
      by (simp add: ensure_session_def start_new_session_def)
    from child_store_shape [OF ens, of loads post msg history] False
    obtain ys s3 db' raised where "?send = (ys, (s3, db'), raised)"
      "chat_sessions db' = chat_sessions db" "chat_messages db' = chat_messages db"
      by auto
    with False show ?thesis by (simp add: extends_store_def)
  next
    case True
    show ?thesis
    proof (cases "create_session db (session_uuid ev) (now_ymd_hm ev) b m None")
      case (Inl e)
      with True have "ensure_session ev ?s1 db b m = Inl e"
        by (intro ensure_session_failed) simp_all
      then have "?send = ([], (?s1, db), Some e)"
        by (simp add: DatabaseLLMGUIChat_send_message_stream_def)
      with Inl show ?thesis by (simp add: extends_store_def)
    next
      case (Inr res)
      obtain d u where res: "res = (d, u)" by (cases res)
      with Inr have cs: "create_session db (session_uuid ev) (now_ymd_hm ev) b m None = Inr (d, u)"
        by simp
      note row = create_session_row [OF cs]
      from True cs have ens: "ensure_session ev ?s1 db b m = Inr (fresh_session ev ?s1 b m u, d)"
        by (intro ensure_session_created) simp_all
      from child_store_shape [OF ens, of loads post msg history]
      obtain ys s3 db' raised rows where shape: "?send = (ys, (s3, db'), raised)"
        "current_session_id s3 = Some u"
        "chat_sessions db' = chat_sessions d"
        "chat_messages db' = chat_messages d @ rows"
        "list_all (\<lambda>row. u = m_session_id row) rows"
        by (auto simp: fresh_session_def)
      from row(1,3) have d: "chat_sessions d = chat_sessions db
                       @ [\<lparr>session_id = u,
                           s_session_name = default_session_name b m (now_ymd_hm ev),
                           s_backend = b, s_model = m, s_metadata = []\<rparr>]"
        "chat_messages d = chat_messages db" by simp_all
      from row(1,2) have "u \<notin> set (map session_id (chat_sessions db))" by simp
      with shape(5)
      have "list_all (\<lambda>row. m_session_id row \<notin> set (map session_id (chat_sessions db))) rows"
        by (induction rows) auto
      with shape d have "extends_store db db'"
        by (intro extends_store_append) simp_all
      moreover from shape(5) have "list_all (\<lambda>row. m_session_id row = u) rows"
        by (induction rows) auto
      with shape d row cs have "?fresh s3 db'" by auto
      ultimately show ?thesis using shape(1) by blast
    qed
  qed
  then show "case ?send of (ys, (s', db'), raised) \<Rightarrow> extends_store db db' \<and> ?fresh s' db'"
    by auto
qed

text \<open>
  Claim C9 at the session of the example with one exchange behind it: after the
  clear, the message \<open>hi\<close> opens session 8 and the two rows of session 7 stay.
\<close>

theorem clear_witness:
  "create_session example_db_two 8 ''2025-01-01 10:00'' ''ollama'' ''llama3.1:8b'' None
     = Inr (example_db_two\<lparr>chat_sessions := chat_sessions example_db_two
              @ [\<lparr>session_id = 8,
                  s_session_name = ''ollama-llama3.1:8b-2025-01-01 10:00'',
                  s_backend = ''ollama'', s_model = ''llama3.1:8b'', s_metadata = []\<rparr>]\<rparr>, 8)
   \<and> DatabaseLLMGUIChat_clear_conversation example_gui_two
       = (([], cleared_status), cleared example_gui_two)
   \<and> (case DatabaseLLMGUIChat_send_message_stream example_loads example_env (Response r_done)
              (cleared example_gui_two) example_db_two ''hi'' [] ''ollama'' ''llama3.1:8b''
              False ''simple'' of
        (ys, (s', db'), raised) \<Rightarrow>
          extends_store example_db_two db'
          \<and> map session_id (chat_sessions db') = [7, 8]
          \<and> current_session_id s' = Some 8
          \<and> list_all (\<lambda>row. m_session_id row = 8) (drop 2 (chat_messages db')))"
proof -
  have cs: "create_session example_db_two (session_uuid example_env) (now_ymd_hm example_env)
       ''ollama'' ''llama3.1:8b'' None
     = Inr (example_db_two\<lparr>chat_sessions := chat_sessions example_db_two
              @ [\<lparr>session_id = 8,
                  s_session_name = ''ollama-llama3.1:8b-2025-01-01 10:00'',
                  s_backend = ''ollama'', s_model = ''llama3.1:8b'', s_metadata = []\<rparr>]\<rparr>, 8)"
    by (simp add: create_session_def default_session_name_def char_length_def is_cont_def
        example_db_two_def example_db_def example_env_def)
  have en: "database_enabled example_gui_two"
    by (simp add: example_gui_two_def example_gui_def)
  let ?d1 = "example_db_two\<lparr>chat_sessions := chat_sessions example_db_two
              @ [\<lparr>session_id = 8,
                  s_session_name = ''ollama-llama3.1:8b-2025-01-01 10:00'',
                  s_backend = ''ollama'', s_model = ''llama3.1:8b'', s_metadata = []\<rparr>]\<rparr>"
  obtain ys p raised where run0:
    "DatabaseLLMGUIChat_send_message_stream example_loads example_env (Response r_done)
       (cleared example_gui_two) example_db_two ''hi'' [] ''ollama'' ''llama3.1:8b''
       False ''simple'' = (ys, p, raised)"
    by (rule prod_cases3)
  obtain s' db' where "p = (s', db')" by (cases p)
  with run0 have run:
    "DatabaseLLMGUIChat_send_message_stream example_loads example_env (Response r_done)
       (cleared example_gui_two) example_db_two ''hi'' [] ''ollama'' ''llama3.1:8b''
       False ''simple'' = (ys, (s', db'), raised)"
    by simp
  from clear_keeps_persisted_history [where self = example_gui_two and db = example_db_two
      and ev = example_env and b = "''ollama''" and m = "''llama3.1:8b''"
      and loads = example_loads and post = "Response r_done" and msg = "''hi''"
      and history = "[]" and r = False and mode = "''simple''" and ?db1.0 = ?d1 and sid = 8]
    run en cs
  have cl: "DatabaseLLMGUIChat_clear_conversation example_gui_two
       = (([], cleared_status), cleared example_gui_two)"
    and ext: "extends_store example_db_two db'"
    and ses: "chat_sessions db' = chat_sessions ?d1"
    and cur: "current_session_id s' = Some 8"
    and rows: "list_all (\<lambda>row. m_session_id row = 8)
                 (drop (length (chat_messages example_db_two)) (chat_messages db'))"
    by simp_all
  have two: "length (chat_messages example_db_two) = 2"
    and ids: "map session_id (chat_sessions ?d1) = [7, 8]"
    by (simp_all add: example_db_two_def example_db_def)
  from cs have "create_session example_db_two 8 ''2025-01-01 10:00'' ''ollama'' ''llama3.1:8b''
       None = Inr (?d1, 8)"
    by (simp add: example_env_def)
  with cl ext ses cur rows two ids run show ?thesis by simp
qed

end
